theory Spec2Isabelle
  imports Complex_Main
begin

section \<open>text.py: the line reader with encoding repair\<close>

text \<open>
  Python \<open>bytes\<close> are lists of 8-bit characters, Python \<open>str\<close> values are lists of
  code points (the ints that \<open>ord\<close> gives). File offsets and sizes are naturals, the integer arguments of the
  source (\<open>line_num_to_read\<close>, \<open>max_len_one_line\<close>, \<open>max_size\<close>) are unbounded ints.
\<close>

type_synonym bytes = "char list"
type_synonym str = "int list"

abbreviation LF :: char where
  "LF \<equiv> CHR 0x0A"

text \<open>The \<open>errors\<close> argument of \<open>bytes.decode\<close>: \<open>'strict'\<close> or \<open>'replace'\<close>.\<close>

datatype errors_strategy = Strict | Replace

text \<open>
  \<open>raw_line.decode(encoding, errors = ...)\<close> either returns the text, raises
  \<open>UnicodeDecodeError\<close> (the only exception the reader catches), or raises
  \<open>LookupError\<close> for an encoding name the interpreter does not know. The codec
  registry and \<open>chardet.detect\<close> are outside the repository: they are parameters
  of the model.
\<close>

datatype decode_result = Decoded str | UnicodeDecodeError | LookupError

type_synonym codec = "string \<Rightarrow> errors_strategy \<Rightarrow> bytes \<Rightarrow> decode_result"
type_synonym detector = "bytes \<Rightarrow> string option"

text \<open>
  The exceptions that leave the reader: the \<open>CustomError\<close> of strict mode, whose message
  holds the raw line, and the \<open>LookupError\<close> of an unknown encoding, which nothing catches.
\<close>

datatype read_error = CustomError bytes | UncaughtLookupError string

text \<open>\<open>detect_bytes_encoding\<close>: chardet's answer, with ascii reported as utf-8.\<close>

definition detect_bytes_encoding :: "detector \<Rightarrow> bytes \<Rightarrow> string option" where
  "detect_bytes_encoding chardet text =
     (if chardet text = Some ''utf-8'' \<or> chardet text = Some ''ascii''
      then Some ''utf-8''
      else chardet text)"

text \<open>
  \<open>fileIO.readline()\<close> on the bytes after the cursor: the bytes up to and including the
  first line feed, or all of them when there is none; the empty bytes at end of file.
  The second component is what stays unread.
\<close>

fun readline :: "bytes \<Rightarrow> bytes \<times> bytes" where
  "readline [] = ([], [])"
| "readline (c # cs) =
     (if c = LF then ([c], cs)
      else (case readline cs of (l, r) \<Rightarrow> (c # l, r)))"

text \<open>
  The slice \<open>xs[:m]\<close>: the first \<open>m\<close> elements for \<open>m \<ge> 0\<close>, and all but the last
  \<open>-m\<close> elements for \<open>m < 0\<close> (nothing when the list is that short).
\<close>

definition slice_to :: "int \<Rightarrow> 'a list \<Rightarrow> 'a list" where
  "slice_to m xs =
     (if 0 \<le> m then take (nat m) xs else take (length xs - nat (- m)) xs)"

record text_file_parser =
  default_encoding :: string
  fixed_encoding :: string

text \<open>\<open>TextFileParser.__init__\<close>: nothing learned yet.\<close>

definition TextFileParser :: "string \<Rightarrow> text_file_parser" where
  "TextFileParser enc = \<lparr>default_encoding = enc, fixed_encoding = ''''\<rparr>"

text \<open>
  The variables of \<open>__readlines_with_encoding_fix\<close> that live across iterations,
  \<open>self._fixed_encoding\<close> among them.
\<close>

record readlines_vars =
  encoding :: string
  errors_strategy :: errors_strategy
  self_fixed_encoding :: string
  lines :: "str list"
  read_size :: nat

text \<open>
  The body of \<open>for retry_count in range(3)\<close> for one raw line, with the number of
  attempts left. The result is the exception raised, or the decoded line, or \<open>None\<close>
  when the attempts ran out and nothing was appended.
\<close>

fun decode_retry ::
  "codec \<Rightarrow> detector \<Rightarrow> bool \<Rightarrow> bytes \<Rightarrow> nat \<Rightarrow> readlines_vars
     \<Rightarrow> (read_error + str option) \<times> readlines_vars" where
  "decode_retry dec chardet strict_decode raw_line 0 v = (Inr None, v)"
| "decode_retry dec chardet strict_decode raw_line (Suc k) v =
     (case dec (encoding v) (errors_strategy v) raw_line of
        Decoded decoded_line \<Rightarrow> (Inr (Some decoded_line), v)
      | LookupError \<Rightarrow> (Inl (UncaughtLookupError (encoding v)), v)
      | UnicodeDecodeError \<Rightarrow>
          (case detect_bytes_encoding chardet raw_line of
             None \<Rightarrow>
               if strict_decode then (Inl (CustomError raw_line), v)
               else decode_retry dec chardet strict_decode raw_line k
                      (v\<lparr>errors_strategy := Replace\<rparr>)
           | Some fixed \<Rightarrow>
               decode_retry dec chardet strict_decode raw_line k
                 (v\<lparr>encoding := fixed, self_fixed_encoding := fixed\<rparr>)))"

lemma readline_length: "readline xs = (l, r) \<Longrightarrow> length l + length r = length xs"
  by (induction xs arbitrary: l r) (auto split: if_splits prod.splits)

lemma slice_to_Nil [simp]: "slice_to m [] = []"
  by (simp add: slice_to_def)

text \<open>
  The \<open>while\<close> loop, on the bytes after the cursor. Every iteration that does not
  break consumes at least one byte, which is the termination argument.
\<close>

function readlines_loop ::
  "codec \<Rightarrow> detector \<Rightarrow> int \<Rightarrow> int \<Rightarrow> bool \<Rightarrow> bytes \<Rightarrow> readlines_vars
     \<Rightarrow> (read_error + str list \<times> nat) \<times> readlines_vars" where
  "readlines_loop dec chardet line_num_to_read max_len_one_line strict_decode unread v =
     (if line_num_to_read = - 1 \<or> int (length (lines v)) < line_num_to_read then
        (case readline unread of
           (raw, rest) \<Rightarrow>
             (let v1 = v\<lparr>read_size := read_size v + length raw\<rparr>;
                  raw_line = slice_to max_len_one_line raw
              in if length raw_line = 0 then (Inr (lines v1, read_size v1), v1)
                 else
                   (case decode_retry dec chardet strict_decode raw_line 3 v1 of
                      (Inl e, v2) \<Rightarrow> (Inl e, v2)
                    | (Inr None, v2) \<Rightarrow>
                        readlines_loop dec chardet line_num_to_read max_len_one_line
                          strict_decode rest v2
                    | (Inr (Some decoded_line), v2) \<Rightarrow>
                        readlines_loop dec chardet line_num_to_read max_len_one_line
                          strict_decode rest (v2\<lparr>lines := lines v2 @ [decoded_line]\<rparr>))))
      else (Inr (lines v, read_size v), v))"
  by pat_completeness auto
termination
proof (relation "measure (\<lambda>(dec, chardet, n, m, strict, unread, v). length unread)")
  show "wf (measure (\<lambda>(dec, chardet, n, m, strict, unread, v). length unread))"
    by simp
next
  fix dec :: codec and chardet :: detector and line_num_to_read max_len_one_line :: int
    and strict_decode :: bool and unread :: bytes and v :: readlines_vars
    and x :: "bytes \<times> bytes" and raw rest :: bytes and xa xb
  assume "(raw, rest) = readline unread" "xb = slice_to max_len_one_line raw"
    "length xb \<noteq> 0"
  then have "raw \<noteq> []" "length raw + length rest = length unread"
    using readline_length [of unread raw rest] by auto
  then have "length rest < length unread"
    by (cases raw) auto
  then show "((dec, chardet, line_num_to_read, max_len_one_line, strict_decode, rest, xa),
              (dec, chardet, line_num_to_read, max_len_one_line, strict_decode, unread, v))
             \<in> measure (\<lambda>(dec, chardet, n, m, strict, unread, v). length unread)"
    by simp
next
  fix dec :: codec and chardet :: detector and line_num_to_read max_len_one_line :: int
    and strict_decode :: bool and unread :: bytes and v :: readlines_vars
    and x :: "bytes \<times> bytes" and raw rest :: bytes and xa xb
  assume "(raw, rest) = readline unread" "xb = slice_to max_len_one_line raw"
    "length xb \<noteq> 0"
  then have "raw \<noteq> []" "length raw + length rest = length unread"
    using readline_length [of unread raw rest] by auto
  then have "length rest < length unread"
    by (cases raw) auto
  then show "((dec, chardet, line_num_to_read, max_len_one_line, strict_decode, rest, xa),
              (dec, chardet, line_num_to_read, max_len_one_line, strict_decode, unread, v))
             \<in> measure (\<lambda>(dec, chardet, n, m, strict, unread, v). length unread)"
    by simp
qed

declare readlines_loop.simps [simp del]

text \<open>
  The locals as the function sets them before its loop, and \<open>readlines\<close>, that is
  \<open>__readlines_with_encoding_fix\<close>, on a file with the given content and the handle at
  offset \<open>pos\<close>. It returns the result (or the exception), the parser
  with what it learned, and the new offset of the handle. One call is taken as atomic:
  the content does not change while it runs.
\<close>

definition initial_vars :: "text_file_parser \<Rightarrow> readlines_vars" where
  "initial_vars p =
     \<lparr>encoding =
        (if fixed_encoding p = [] then default_encoding p else fixed_encoding p),
      errors_strategy = Strict,
      self_fixed_encoding = fixed_encoding p,
      lines = [],
      read_size = 0\<rparr>"

definition readlines_with_encoding_fix ::
  "codec \<Rightarrow> detector \<Rightarrow> text_file_parser \<Rightarrow> bytes \<Rightarrow> nat \<Rightarrow> int \<Rightarrow> int \<Rightarrow> bool
     \<Rightarrow> (read_error + str list \<times> nat) \<times> text_file_parser \<times> nat" where
  "readlines_with_encoding_fix dec chardet p file_content pos line_num_to_read
       max_len_one_line strict_decode =
     (case readlines_loop dec chardet line_num_to_read max_len_one_line strict_decode
             (drop pos file_content) (initial_vars p) of
        (r, v) \<Rightarrow> (r, p\<lparr>fixed_encoding := self_fixed_encoding v\<rparr>, pos + read_size v))"

text \<open>
  What the loop keeps true of its variables: once something is learned, the encoding in
  use is the learned one. The locals of every call start that way, and both are only
  ever set together.
\<close>

definition uses_learned :: "readlines_vars \<Rightarrow> bool" where
  "uses_learned v = (self_fixed_encoding v = [] \<or> encoding v = self_fixed_encoding v)"





text \<open>
  \<open>reach_end\<close>: \<open>fileIO.tell() >= os.path.getsize(file_path)\<close>. The file is there
  whenever this is asked: only \<open>clean\<close> removes it, and \<open>clean\<close> drops the manager with it.
\<close>

definition reach_end :: "bytes \<Rightarrow> nat \<Rightarrow> bool" where
  "reach_end file_content pos = (length file_content \<le> pos)"

text \<open>
  A codec registry to evaluate the model with. \<open>decode_ascii\<close> is Python's \<open>ascii\<close>
  codec: a byte of 128 or more is an error in strict mode and U+FFFD in replace mode.
  The registry answers \<open>utf-8\<close> with the same function, which is what Python's utf-8
  decoder returns on every input without a byte in 0x80..0xF7 (bytes below 0x80 decode to
  themselves, bytes from 0xF8 are invalid wherever they stand); the inputs evaluated
  below are of that kind. Any other name is unknown.
\<close>

fun decode_ascii :: "errors_strategy \<Rightarrow> bytes \<Rightarrow> decode_result" where
  "decode_ascii Strict bs =
     (if list_all (\<lambda>b. (of_char b :: int) < 128) bs then Decoded (map of_char bs)
      else UnicodeDecodeError)"
| "decode_ascii Replace bs =
     Decoded (map (\<lambda>b. if (of_char b :: int) < 128 then of_char b else 0xFFFD) bs)"

definition seven_bit_codecs :: codec where
  "seven_bit_codecs enc errs bs =
     (if enc = ''utf-8'' \<or> enc = ''ascii'' then decode_ascii errs bs else LookupError)"


text \<open>
  Three detectors to evaluate with: one that never guesses, one that always says ascii,
  one that always says ISO-8859-1.
\<close>

definition chardet_none :: detector where
  "chardet_none bs = None"

definition chardet_ascii :: detector where
  "chardet_ascii bs = Some ''ascii''"


section \<open>process.py: the stream managers\<close>

text \<open>
  The backing file of one \<open>_StdStreamManager\<close>, with the two handles opened on it: the
  reader's (\<open>rb+\<close>, owned by the TextFileParser) and the writer's (\<open>wb\<close>, whose
  descriptor the child inherits, so that the offset is shared with the child).
\<close>

record backing_file =
  content :: bytes
  rpos :: nat
  wpos :: nat
  on_disk :: bool

text \<open>A write of the child at the shared offset; a gap left by a seek reads as zero bytes.\<close>

definition child_write :: "bytes \<Rightarrow> backing_file \<Rightarrow> backing_file" where
  "child_write bs f =
     f\<lparr>content :=
         take (wpos f) (content f @ replicate (wpos f - length (content f)) (CHR 0x00))
           @ bs @ drop (wpos f + length bs) (content f),
       wpos := wpos f + length bs\<rparr>"

text \<open>
  The two file objects the size monitor is given, \<open>[get_read_pipe(), get_write_pipe()]\<close>.
  Both modes, \<open>rb+\<close> and \<open>wb\<close>, are writable.
\<close>

datatype file_obj = ReadPipe | WritePipe

fun writable :: "file_obj \<Rightarrow> bool" where
  "writable ReadPipe = True"
| "writable WritePipe = True"

fun seek0 :: "file_obj \<Rightarrow> backing_file \<Rightarrow> backing_file" where
  "seek0 ReadPipe f = f\<lparr>rpos := 0\<rparr>"
| "seek0 WritePipe f = f\<lparr>wpos := 0\<rparr>"

definition truncate0 :: "backing_file \<Rightarrow> backing_file" where
  "truncate0 f = f\<lparr>content := []\<rparr>"

text \<open>
  The body of \<open>for file_obj in file_objs\<close>: \<open>seek(0)\<close>, \<open>truncate(0)\<close> when writable,
  \<open>flush()\<close> (which changes nothing the model sees).
\<close>

definition reset_file_obj :: "file_obj \<Rightarrow> backing_file \<Rightarrow> backing_file" where
  "reset_file_obj file_obj f =
     (let f1 = seek0 file_obj f in if writable file_obj then truncate0 f1 else f1)"

text \<open>
  \<open>max_size * 0.5\<close> is a float product: the int is converted to a double, which keeps 53
  significant bits and rounds to the nearest, ties to even, and raises \<open>OverflowError\<close>
  from \<open>2^1024\<close> on. \<open>double_exponent\<close> is the number of low bits that do not fit,
  \<open>nearest_double\<close> the value of the double for an int that is not negative,
  \<open>float_of_int\<close> the conversion (\<open>None\<close> for the error). Halving a double of this size is
  exact, and Python compares an int with a float by their exact values, so
  \<open>exceeds_half beyond_size max_size\<close> is the guard \<open>beyond_size > max_size * 0.5\<close>.
\<close>

function double_exponent :: "int \<Rightarrow> nat" where
  "double_exponent n = (if n < 2 ^ 53 then 0 else Suc (double_exponent (n div 2)))"
  by pat_completeness auto
termination
  by (relation "measure nat") auto

declare double_exponent.simps [simp del]

definition nearest_double :: "int \<Rightarrow> int" where
  "nearest_double n =
     (let e = double_exponent n; q = n div 2 ^ e; r = n mod 2 ^ e
      in (if 2 ^ e < 2 * r \<or> (2 * r = 2 ^ e \<and> odd q) then q + 1 else q) * 2 ^ e)"

definition float_of_int :: "int \<Rightarrow> rat option" where
  "float_of_int n =
     (let x = (if n < 0 then - nearest_double (- n) else nearest_double n)
      in if 2 ^ 1024 \<le> \<bar>x\<bar> then None else Some (of_int x))"

definition exceeds_half :: "int \<Rightarrow> int \<Rightarrow> bool option" where
  "exceeds_half beyond_size limit =
     (case float_of_int limit of
        None \<Rightarrow> None
      | Some x \<Rightarrow> Some (x * (1 / 2) < of_int beyond_size))"

text \<open>
  One round of \<open>file_size_monitor\<close>'s loop, before its sleep: \<open>None\<close> when the guard
  raises (which ends the thread), else the flag that says whether the warning was
  logged, which is whether the reset ran, and the file after the round.
\<close>

definition file_size_monitor :: "int \<Rightarrow> backing_file \<Rightarrow> (bool \<times> backing_file) option" where
  "file_size_monitor max_size f =
     (let file_size = int (length (content f));
          beyond_size = file_size - max_size
      in case exceeds_half beyond_size max_size of
           None \<Rightarrow> None
         | Some True \<Rightarrow> Some (True, fold reset_file_obj [ReadPipe, WritePipe] f)
         | Some False \<Rightarrow> Some (False, f))"

record std_stream_manager =
  max_size :: int
  stream_collcet_file_path :: nat
  stream_text_parser :: text_file_parser
  size_monitor_signal :: bool
  handles_closed :: bool

text \<open>
  What a call of \<open>_kill_process_tree\<close> comes to; psutil is outside the repository, so the
  world says which it is. \<open>Killed\<close>: every process of the tree was killed and waited for,
  the answer is \<open>True\<close>; psutil's wait has reaped the child, so \<open>Popen.poll()\<close> finds no
  child to wait for and reports 0. \<open>NotKilled s\<close>: an \<open>AccessDenied\<close>, \<open>NoSuchProcess\<close> or
  \<open>OSError\<close> was caught, or a process of the tree is still running: the answer is
  \<open>False\<close>, and \<open>poll\<close> reports \<open>s\<close> afterwards (\<open>None\<close> when the child still runs).
  \<open>WaitTimedOut s\<close>: a \<open>wait(1)\<close> ran out; \<open>psutil.TimeoutExpired\<close> is in neither
  \<open>except\<close> clause and leaves the method.
\<close>

datatype kill_outcome = Killed | NotKilled "int option" | WaitTimedOut "int option"

text \<open>
  What lies outside the controller: the temporary files by path (\<open>tempfile.mktemp\<close> hands
  out fresh paths, here numbers), the child as \<open>Popen.poll()\<close> sees it (\<open>None\<close> while it
  runs), what a kill of the process tree would come to, the monotonic clock, and what
  the file system and the kernel answer to \<open>start\<close>.
\<close>

record world =
  files :: "nat \<Rightarrow> backing_file"
  next_tmp :: nat
  poll :: "int option"
  kill_outcome :: kill_outcome
  monotonic :: rat
  path_exists :: "string \<Rightarrow> bool"
  resolvable :: "string \<Rightarrow> bool"
  spawn_ok :: bool
  next_pid :: nat

text \<open>
  \<open>_StdStreamManager.__init__\<close>: a fresh path, the parser's handle on it (the file is
  created), the write handle (\<open>wb\<close> truncates). The monitor thread runs when
  \<open>max_size > 0\<close>, until the signal is set.
\<close>

definition StdStreamManager :: "int \<Rightarrow> world \<Rightarrow> std_stream_manager \<times> world" where
  "StdStreamManager limit w =
     (\<lparr>max_size = limit,
       stream_collcet_file_path = next_tmp w,
       stream_text_parser = TextFileParser ''utf-8'',
       size_monitor_signal = False,
       handles_closed = False\<rparr>,
      w\<lparr>files := (files w)(next_tmp w :=
            \<lparr>content = [], rpos = 0, wpos = 0, on_disk = True\<rparr>),
        next_tmp := Suc (next_tmp w)\<rparr>)"

definition monitor_running :: "std_stream_manager \<Rightarrow> bool" where
  "monitor_running m = (0 < max_size m \<and> \<not> size_monitor_signal m)"

text \<open>\<open>_StdStreamManager.__del__\<close>.\<close>

definition StdStreamManager_del :: "std_stream_manager \<Rightarrow> std_stream_manager" where
  "StdStreamManager_del m = m\<lparr>size_monitor_signal := True, handles_closed := True\<rparr>"

definition delete_file :: "std_stream_manager \<Rightarrow> world \<Rightarrow> world" where
  "delete_file m w =
     (let path = stream_collcet_file_path m in
      if on_disk (files w path)
      then w\<lparr>files := (files w)(path := (files w path)\<lparr>on_disk := False\<rparr>)\<rparr>
      else w)"

definition is_stream_end :: "std_stream_manager \<Rightarrow> world \<Rightarrow> bool" where
  "is_stream_end m w =
     (let f = files w (stream_collcet_file_path m) in reach_end (content f) (rpos f))"

definition pick_lines ::
  "codec \<Rightarrow> detector \<Rightarrow> std_stream_manager \<Rightarrow> world \<Rightarrow> int \<Rightarrow> int \<Rightarrow> bool
     \<Rightarrow> (read_error + str list \<times> nat) \<times> std_stream_manager \<times> world" where
  "pick_lines dec chardet m w line_num max_len_one_line strict_decode_mode =
     (let path = stream_collcet_file_path m; f = files w path in
      case readlines_with_encoding_fix dec chardet (stream_text_parser m) (content f) (rpos f)
             line_num max_len_one_line strict_decode_mode of
        (r, p, pos) \<Rightarrow>
          (r, m\<lparr>stream_text_parser := p\<rparr>,
           w\<lparr>files := (files w)(path := f\<lparr>rpos := pos\<rparr>)\<rparr>))"

section \<open>process.py: the controller\<close>

record proc_result =
  returncode :: "int option"
  stdout :: "str list"
  stderr :: "str list"

text \<open>
  The exceptions that leave the controller: one that came out of the reader, a failed
  \<open>assert\<close>, an \<open>OSError\<close> of \<open>open\<close> or \<open>Popen\<close>, the \<open>TypeError\<close> of arithmetic on
  \<open>None\<close>, the \<open>psutil.TimeoutExpired\<close> that a kill lets through, and the controller's own
  \<open>TimeoutError(cmd, timeout, stdout, stderr)\<close>.
\<close>

datatype error =
    ReadError read_error
  | AssertionError string
  | OSError string
  | TypeError string
  | PsutilTimeoutExpired
  | TimeoutError string rat "str list" "str list"

text \<open>
  The controller. \<open>managers\<close> is the store of the \<open>_StdStreamManager\<close> objects, by the
  path of their backing file; \<open>stdout_manager\<close> and \<open>stderr_manager\<close> are references
  into it (\<open>None\<close> as in the source), and with the merge option they are the same
  reference. \<open>call_back\<close> says whether a log callback is set, \<open>call_back_calls\<close> lists the
  messages it was called with. The environment mapping, the line-buffering preload and
  the process group are left out: no operation below reads them.
\<close>

record popen_proc_mgr =
  executable_path :: string
  args :: "string list"
  cwd :: string
  stdin_file_path :: "string option"
  stdin_file_stream :: bool
  merget_option :: bool
  stdout_collect_option :: bool
  stderr_collect_option :: bool
  stdout_buffer_size :: int
  stderr_buffer_size :: int
  proc_label :: string
  managers :: "nat \<Rightarrow> std_stream_manager"
  stdout_manager :: "nat option"
  stderr_manager :: "nat option"
  call_back :: bool
  call_back_calls :: "str list"
  popen :: "nat option"

text \<open>What the store holds at a path no manager was created for.\<close>

definition no_manager :: std_stream_manager where
  "no_manager =
     \<lparr>max_size = 0, stream_collcet_file_path = 0,
      stream_text_parser = TextFileParser ''utf-8'',
      size_monitor_signal = True, handles_closed = True\<rparr>"

definition new_manager :: "int \<Rightarrow> popen_proc_mgr \<Rightarrow> world \<Rightarrow> nat \<times> popen_proc_mgr \<times> world" where
  "new_manager limit c w =
     (case StdStreamManager limit w of
        (m, w') \<Rightarrow>
          (stream_collcet_file_path m,
           c\<lparr>managers := (managers c)(stream_collcet_file_path m := m)\<rparr>, w'))"

text \<open>\<open>_setup_output_manager\<close>.\<close>

definition setup_output_manager :: "popen_proc_mgr \<Rightarrow> world \<Rightarrow> popen_proc_mgr \<times> world" where
  "setup_output_manager c w =
     (case (if stdout_collect_option c
            then (case new_manager (stdout_buffer_size c) c w of
                    (r, c', w') \<Rightarrow> (c'\<lparr>stdout_manager := Some r\<rparr>, w'))
            else (c, w)) of
        (c1, w1) \<Rightarrow>
          if stderr_collect_option c1 then
            (if merget_option c1 then (c1\<lparr>stderr_manager := stdout_manager c1\<rparr>, w1)
             else (case new_manager (stderr_buffer_size c1) c1 w1 of
                     (r, c', w') \<Rightarrow> (c'\<lparr>stderr_manager := Some r\<rparr>, w')))
          else (c1, w1))"

text \<open>
  \<open>__init__\<close>, from its assertions on. Whether the executable is found (as a file or by
  \<open>which\<close>) and whether the working directory exists is read from the world; the
  rebinding of a bare command name by \<open>__fix_executable_path\<close>, which runs a controller
  of its own, is not modelled.
\<close>

definition PopenProcMgr ::
  "string \<Rightarrow> string list \<Rightarrow> string \<Rightarrow> bool \<Rightarrow> bool \<Rightarrow> bool \<Rightarrow> int \<Rightarrow> int \<Rightarrow> string option
     \<Rightarrow> string \<Rightarrow> world \<Rightarrow> (error + popen_proc_mgr) \<times> world" where
  "PopenProcMgr exe arguments dir collect_stdout collect_stderr merge_std_output
       stdout_size stderr_size stdin_file label w =
     (if resolvable w exe = False
      then (Inl (AssertionError ''Executable path not exists''), w)
      else if path_exists w dir = False
      then (Inl (AssertionError ''Working directory not exists''), w)
      else if merge_std_output \<and> (collect_stdout \<and> collect_stderr) = False
      then (Inl (AssertionError
              ''Merge option must be used with stdout and stderr collecting on.''), w)
      else
        (case setup_output_manager
                \<lparr>executable_path = exe, args = arguments, cwd = dir,
                 stdin_file_path = stdin_file, stdin_file_stream = False,
                 merget_option = merge_std_output,
                 stdout_collect_option = collect_stdout,
                 stderr_collect_option = collect_stderr,
                 stdout_buffer_size = stdout_size, stderr_buffer_size = stderr_size,
                 proc_label = label,
                 managers = (\<lambda>r. no_manager),
                 stdout_manager = None, stderr_manager = None,
                 call_back = False, call_back_calls = [], popen = None\<rparr> w of
           (c, w') \<Rightarrow> (Inr c, w')))"

fun join :: "string \<Rightarrow> string list \<Rightarrow> string" where
  "join sep [] = []"
| "join sep [x] = x"
| "join sep (x # y # ys) = x @ sep @ join sep (y # ys)"

definition cmd :: "popen_proc_mgr \<Rightarrow> string" where
  "cmd c = executable_path c @ '' '' @ join '' '' (args c)"

definition set_log_callback :: "popen_proc_mgr \<Rightarrow> popen_proc_mgr" where
  "set_log_callback c = c\<lparr>call_back := True\<rparr>"

definition is_living :: "popen_proc_mgr \<Rightarrow> world \<Rightarrow> error + bool" where
  "is_living c w =
     (case popen c of
        None \<Rightarrow> Inl (AssertionError ''Process is not started.'')
      | Some pid \<Rightarrow> Inr (poll w = None))"

text \<open>\<open>_kill_process_tree\<close>, by what the world says the kill comes to.\<close>

definition kill_process_tree :: "world \<Rightarrow> (error + bool) \<times> world" where
  "kill_process_tree w =
     (case kill_outcome w of
        Killed \<Rightarrow> (Inr True, w\<lparr>poll := Some 0\<rparr>)
      | NotKilled s \<Rightarrow> (Inr False, w\<lparr>poll := s\<rparr>)
      | WaitTimedOut s \<Rightarrow> (Inl PsutilTimeoutExpired, w\<lparr>poll := s\<rparr>))"

text \<open>\<open>kill\<close> returns \<open>None\<close> when the process is not living.\<close>

definition kill :: "popen_proc_mgr \<Rightarrow> world \<Rightarrow> (error + bool option) \<times> world" where
  "kill c w =
     (case is_living c w of
        Inl e \<Rightarrow> (Inl e, w)
      | Inr True \<Rightarrow>
          (case kill_process_tree w of
             (Inl e, w') \<Rightarrow> (Inl e, w')
           | (Inr ok, w') \<Rightarrow> (Inr (Some ok), w'))
      | Inr False \<Rightarrow> (Inr None, w))"

text \<open>
  The block \<open>clean\<close> runs for each of the two references: \<open>delete_file()\<close> when asked,
  \<open>__del__()\<close>. The reference itself is cleared by \<open>clean\<close>.
\<close>

definition release_manager ::
  "bool \<Rightarrow> nat \<Rightarrow> popen_proc_mgr \<Rightarrow> world \<Rightarrow> popen_proc_mgr \<times> world" where
  "release_manager delete_output_file r c w =
     (c\<lparr>managers := (managers c)(r := StdStreamManager_del (managers c r))\<rparr>,
      if delete_output_file then delete_file (managers c r) w else w)"

definition clean :: "bool \<Rightarrow> popen_proc_mgr \<Rightarrow> world \<Rightarrow> (error + unit) \<times> popen_proc_mgr \<times> world" where
  "clean delete_output_file c w =
     (if popen c = None then (Inr (), c, w)
      else
        (case kill c w of
           (Inl e, w1) \<Rightarrow> (Inl e, c, w1)
         | (Inr killed, w1) \<Rightarrow>
             (case (case stdout_manager (c\<lparr>stdin_file_stream := False\<rparr>) of
                      None \<Rightarrow> (c\<lparr>stdin_file_stream := False\<rparr>, w1)
                    | Some r \<Rightarrow>
                        (case release_manager delete_output_file r
                                (c\<lparr>stdin_file_stream := False\<rparr>) w1 of
                           (c', w') \<Rightarrow> (c'\<lparr>stdout_manager := None\<rparr>, w'))) of
                (c2, w2) \<Rightarrow>
                  (case (case stderr_manager c2 of
                           None \<Rightarrow> (c2, w2)
                         | Some r \<Rightarrow>
                             (case release_manager delete_output_file r c2 w2 of
                                (c', w') \<Rightarrow> (c'\<lparr>stderr_manager := None\<rparr>, w'))) of
                     (c3, w3) \<Rightarrow> (Inr (), c3\<lparr>popen := None\<rparr>, w3)))))"

text \<open>
  \<open>start\<close>. Opening the stdin file fails when it does not exist, the spawn fails when
  the world says so; a spawned child is running, so poll reports \<open>None\<close>.
\<close>

definition start :: "popen_proc_mgr \<Rightarrow> world \<Rightarrow> (error + unit) \<times> popen_proc_mgr \<times> world" where
  "start c w =
     (if popen c \<noteq> None
      then (Inl (AssertionError
              ''Process is already started, call the clean() method to stop the previous one.''),
            c, w)
      else
        (case setup_output_manager c w of
           (c1, w1) \<Rightarrow>
             (case (case stdin_file_path c1 of
                      None \<Rightarrow> Inr c1
                    | Some path \<Rightarrow>
                        if path = [] then Inr c1
                        else if path_exists w1 path
                        then Inr (c1\<lparr>stdin_file_stream := True\<rparr>)
                        else Inl (OSError path)) of
                Inl e \<Rightarrow> (Inl e, c1, w1)
              | Inr c2 \<Rightarrow>
                  (let c3 =
                     (if call_back c2
                      then c2\<lparr>call_back_calls := call_back_calls c2 @
                             [map of_char (''Start process: '' @ executable_path c2 @ '' ''
                                @ join '' '' (args c2))]\<rparr>
                      else c2)
                   in if spawn_ok w1
                      then (Inr (), c3\<lparr>popen := Some (next_pid w1)\<rparr>,
                            w1\<lparr>poll := None, next_pid := Suc (next_pid w1)\<rparr>)
                      else (Inl (OSError (executable_path c3)), c3, w1)))))"

text \<open>\<open>pick_stdout\<close> and \<open>pick_stderr\<close>.\<close>

definition pick_stdout ::
  "codec \<Rightarrow> detector \<Rightarrow> popen_proc_mgr \<Rightarrow> world \<Rightarrow> int \<Rightarrow> int \<Rightarrow> bool
     \<Rightarrow> (read_error + str list \<times> nat) \<times> popen_proc_mgr \<times> world" where
  "pick_stdout dec chardet c w line_num max_len_one_line strict_decode_mode =
     (case stdout_manager c of
        None \<Rightarrow> (Inr ([], 0), c, w)
      | Some r \<Rightarrow>
          (case pick_lines dec chardet (managers c r) w line_num max_len_one_line
                  strict_decode_mode of
             (res, m, w') \<Rightarrow> (res, c\<lparr>managers := (managers c)(r := m)\<rparr>, w')))"

definition pick_stderr ::
  "codec \<Rightarrow> detector \<Rightarrow> popen_proc_mgr \<Rightarrow> world \<Rightarrow> int \<Rightarrow> int \<Rightarrow> bool
     \<Rightarrow> (read_error + str list \<times> nat) \<times> popen_proc_mgr \<times> world" where
  "pick_stderr dec chardet c w line_num max_len_one_line strict_decode_mode =
     (if merget_option c then (Inr ([], 0), c, w)
      else
        (case stderr_manager c of
           None \<Rightarrow> (Inr ([], 0), c, w)
         | Some r \<Rightarrow>
             (case pick_lines dec chardet (managers c r) w line_num max_len_one_line
                     strict_decode_mode of
                (res, m, w') \<Rightarrow> (res, c\<lparr>managers := (managers c)(r := m)\<rparr>, w'))))"

text \<open>
  \<open>self._stdout_manager.is_stream_end() == False if self._stdout_manager else False\<close>, for
  either reference, in one world.
\<close>

definition has_unread :: "nat option \<Rightarrow> popen_proc_mgr \<Rightarrow> world \<Rightarrow> bool" where
  "has_unread manager c w =
     (case manager of
        None \<Rightarrow> False
      | Some r \<Rightarrow> is_stream_end (managers c r) w = False)"

section \<open>process.py: the wait loop\<close>

text \<open>
  The child, the monitor threads and the clock run beside the controller. \<open>env k\<close> is
  what they do to the world just before the controller's \<open>k\<close>-th look at it. An
  iteration of the loop has seven looks: at the size of the stdout file (\<open>k\<close>), at the
  size of the stderr file (\<open>k + 1\<close>), at the process (\<open>k + 2\<close>, when no output remains),
  the read of stderr (\<open>k + 3\<close>), the read of stdout (\<open>k + 4\<close>), the clock (\<open>k + 5\<close>, when
  there is a timeout) and the kill (\<open>k + 6\<close>, when the deadline has passed). A single
  look is atomic.
\<close>

type_synonym environment = "nat \<Rightarrow> world \<Rightarrow> world"

text \<open>
  \<open>still_remain_output_to_read\<close> looks at the stdout file, then at the stderr file; the
  loop condition \<open>still_remain_output_to_read() or is_living()\<close> polls the process after
  that, and only when no output remains.
\<close>

definition still_remain_output_to_read ::
  "environment \<Rightarrow> nat \<Rightarrow> popen_proc_mgr \<Rightarrow> world \<Rightarrow> bool \<times> world" where
  "still_remain_output_to_read env k c w =
     (let has_stdout = has_unread (stdout_manager c) c (env k w);
          has_stderr = has_unread (stderr_manager c) c (env (k + 1) (env k w))
      in (has_stdout \<or> has_stderr, env (k + 1) (env k w)))"

definition loop_condition ::
  "environment \<Rightarrow> nat \<Rightarrow> popen_proc_mgr \<Rightarrow> world \<Rightarrow> (error + bool) \<times> world" where
  "loop_condition env k c w =
     (case still_remain_output_to_read env k c w of
        (True, w') \<Rightarrow> (Inr True, w')
      | (False, w') \<Rightarrow> (is_living c (env (k + 2) w'), env (k + 2) w'))"

text \<open>
  The message \<open>f"[proc: {self._proc_label}] [stderr] {line}"\<close> (or \<open>[stdout]\<close>), and
  \<open>for line in buffer: if self._call_back: self._call_back(...)\<close>: the messages the
  callback is called with, in order.
\<close>

definition line_message :: "string \<Rightarrow> string \<Rightarrow> str \<Rightarrow> str" where
  "line_message label stream line =
     map of_char (''[proc: '' @ label @ ''] ['' @ stream @ ''] '') @ line"

definition log_lines :: "string \<Rightarrow> str list \<Rightarrow> popen_proc_mgr \<Rightarrow> popen_proc_mgr" where
  "log_lines stream buffer c =
     (if call_back c
      then c\<lparr>call_back_calls := call_back_calls c @
             map (line_message (proc_label c) stream) buffer\<rparr>
      else c)"

text \<open>The deadline check at the end of an iteration.\<close>

definition check_deadline ::
  "environment \<Rightarrow> nat \<Rightarrow> rat option \<Rightarrow> rat option \<Rightarrow> popen_proc_mgr \<Rightarrow> world \<Rightarrow> str list
     \<Rightarrow> str list \<Rightarrow> (error + unit) \<times> world" where
  "check_deadline env k timeout end_time c w stdout_lines stderr_lines =
     (case timeout of
        None \<Rightarrow> (Inr (), w)
      | Some t \<Rightarrow>
          if t = 0 then (Inr (), w)
          else
            (case end_time of
               None \<Rightarrow> (Inl (TypeError ''end_time''), w)
             | Some e \<Rightarrow>
                 (let remaining_time = e - monotonic (env (k + 5) w) in
                  if remaining_time \<le> 0 then
                    (case kill c (env (k + 6) (env (k + 5) w)) of
                       (Inl err, w') \<Rightarrow> (Inl err, w')
                     | (Inr killed, w') \<Rightarrow>
                         (Inl (TimeoutError (cmd c) t stdout_lines stderr_lines), w'))
                  else (Inr (), env (k + 5) w))))"

text \<open>
  The body of the loop for the iteration whose looks start at \<open>k\<close>, in the world the
  condition left.
\<close>

definition wait_body ::
  "codec \<Rightarrow> detector \<Rightarrow> environment \<Rightarrow> rat option \<Rightarrow> rat option \<Rightarrow> nat
     \<Rightarrow> popen_proc_mgr \<Rightarrow> world \<Rightarrow> str list \<Rightarrow> str list
     \<Rightarrow> (error + str list \<times> str list) \<times> popen_proc_mgr \<times> world" where
  "wait_body dec chardet env timeout end_time k c w stdout_lines stderr_lines =
     (case pick_stderr dec chardet c (env (k + 3) w) (- 1) (- 1) False of
        (Inl e, c1, w1) \<Rightarrow> (Inl (ReadError e), c1, w1)
      | (Inr (stderr_buffer, read_len), c1, w1) \<Rightarrow>
          (case pick_stdout dec chardet (log_lines ''stderr'' stderr_buffer c1)
                  (env (k + 4) w1) (- 1) (- 1) False of
             (Inl e, c2, w2) \<Rightarrow> (Inl (ReadError e), c2, w2)
           | (Inr (stdout_buffer, read_len), c2, w2) \<Rightarrow>
               (case check_deadline env k timeout end_time
                       (log_lines ''stdout'' stdout_buffer c2) w2
                       (stdout_lines @ stdout_buffer) (stderr_lines @ stderr_buffer) of
                  (Inl e, w3) \<Rightarrow> (Inl e, log_lines ''stdout'' stdout_buffer c2, w3)
                | (Inr u, w3) \<Rightarrow>
                    (Inr (stdout_lines @ stdout_buffer, stderr_lines @ stderr_buffer),
                     log_lines ''stdout'' stdout_buffer c2, w3))))"

text \<open>
  The \<open>while\<close> loop. It need not end (a child that never exits, no timeout), so it runs
  on fuel: \<open>None\<close> says that the iterations allowed were not enough.
\<close>

fun wait_loop ::
  "nat \<Rightarrow> codec \<Rightarrow> detector \<Rightarrow> environment \<Rightarrow> rat option \<Rightarrow> rat option \<Rightarrow> nat
     \<Rightarrow> popen_proc_mgr \<Rightarrow> world \<Rightarrow> str list \<Rightarrow> str list
     \<Rightarrow> ((error + str list \<times> str list) \<times> popen_proc_mgr \<times> world) option" where
  "wait_loop 0 dec chardet env timeout end_time k c w stdout_lines stderr_lines = None"
| "wait_loop (Suc fuel) dec chardet env timeout end_time k c w stdout_lines stderr_lines =
     (case loop_condition env k c w of
        (Inl e, w0) \<Rightarrow> Some (Inl e, c, w0)
      | (Inr False, w0) \<Rightarrow> Some (Inr (stdout_lines, stderr_lines), c, w0)
      | (Inr True, w0) \<Rightarrow>
          (case wait_body dec chardet env timeout end_time k c w0
                  stdout_lines stderr_lines of
             (Inl e, c', w') \<Rightarrow> Some (Inl e, c', w')
           | (Inr (stdout_lines', stderr_lines'), c', w') \<Rightarrow>
               wait_loop fuel dec chardet env timeout end_time (k + 7) c' w'
                 stdout_lines' stderr_lines'))"


text \<open>The property \<open>returncode\<close>.\<close>

definition returncode_of :: "popen_proc_mgr \<Rightarrow> world \<Rightarrow> int option" where
  "returncode_of c w = (case popen c of None \<Rightarrow> None | Some pid \<Rightarrow> poll w)"

text \<open>
  \<open>_wait\<close>: \<open>if timeout:\<close> is false for \<open>None\<close> and for zero. After the loop the process
  handle holds the return code it has seen, so \<open>returncode\<close> and the \<open>kill\<close> inside
  \<open>clean\<close> are answered without another look at the world.
\<close>

definition private_wait ::
  "nat \<Rightarrow> codec \<Rightarrow> detector \<Rightarrow> environment \<Rightarrow> rat option \<Rightarrow> bool \<Rightarrow> popen_proc_mgr \<Rightarrow> world
     \<Rightarrow> ((error + proc_result) \<times> popen_proc_mgr \<times> world) option" where
  "private_wait fuel dec chardet env timeout del_tmpfile c w =
     (let end_time =
            (case timeout of
               None \<Rightarrow> None
             | Some t \<Rightarrow> if t = 0 then None else Some (monotonic w + t))
      in case wait_loop fuel dec chardet env timeout end_time 0 c w [] [] of
           None \<Rightarrow> None
         | Some (Inl e, c', w') \<Rightarrow> Some (Inl e, c', w')
         | Some (Inr (stdout_lines, stderr_lines), c', w') \<Rightarrow>
             (case clean del_tmpfile c' w' of
                (Inl e, c'', w'') \<Rightarrow> Some (Inl e, c'', w'')
              | (Inr u, c'', w'') \<Rightarrow>
                  Some (Inr \<lparr>returncode = returncode_of c' w', stdout = stdout_lines,
                              stderr = stderr_lines\<rparr>, c'', w'')))"

definition wait ::
  "nat \<Rightarrow> codec \<Rightarrow> detector \<Rightarrow> environment \<Rightarrow> rat option \<Rightarrow> popen_proc_mgr \<Rightarrow> world
     \<Rightarrow> ((error + proc_result) \<times> popen_proc_mgr \<times> world) option" where
  "wait fuel dec chardet env timeout c w =
     private_wait fuel dec chardet env timeout True c w"

definition run ::
  "nat \<Rightarrow> codec \<Rightarrow> detector \<Rightarrow> environment \<Rightarrow> rat option \<Rightarrow> bool \<Rightarrow> popen_proc_mgr \<Rightarrow> world
     \<Rightarrow> ((error + proc_result) \<times> popen_proc_mgr \<times> world) option" where
  "run fuel dec chardet env timeout del_tmpfile c w =
     (case start c w of
        (Inl e, c', w') \<Rightarrow> Some (Inl e, c', w')
      | (Inr u, c', w') \<Rightarrow> private_wait fuel dec chardet env timeout del_tmpfile c' w')"

text \<open>\<open>set_proc_label\<close> and \<open>append_args\<close>.\<close>

definition set_proc_label :: "string \<Rightarrow> popen_proc_mgr \<Rightarrow> popen_proc_mgr" where
  "set_proc_label label c = c\<lparr>proc_label := label\<rparr>"

definition append_args :: "string list \<Rightarrow> popen_proc_mgr \<Rightarrow> popen_proc_mgr" where
  "append_args more_args c = c\<lparr>args := args c @ more_args\<rparr>"

text \<open>
  The controllers a program can hold: one that the constructor returned, after any
  sequence of calls of the public methods, in any world.
\<close>

inductive reachable :: "popen_proc_mgr \<Rightarrow> bool" where
  constructed:
    "PopenProcMgr exe arguments dir collect_stdout collect_stderr merge_std_output
       stdout_size stderr_size stdin_file label w = (Inr c, w') \<Longrightarrow> reachable c"
| started: "reachable c \<Longrightarrow> start c w = (r, c', w') \<Longrightarrow> reachable c'"
| cleaned: "reachable c \<Longrightarrow> clean delete_output_file c w = (r, c', w') \<Longrightarrow> reachable c'"
| picked_stdout:
    "reachable c \<Longrightarrow> pick_stdout dec chardet c w n m strict = (res, c', w') \<Longrightarrow> reachable c'"
| picked_stderr:
    "reachable c \<Longrightarrow> pick_stderr dec chardet c w n m strict = (res, c', w') \<Longrightarrow> reachable c'"
| waited:
    "reachable c \<Longrightarrow> private_wait fuel dec chardet env timeout del_tmpfile c w = Some (r, c', w')
       \<Longrightarrow> reachable c'"
| ran:
    "reachable c \<Longrightarrow> run fuel dec chardet env timeout del_tmpfile c w = Some (r, c', w')
       \<Longrightarrow> reachable c'"
| callback_set: "reachable c \<Longrightarrow> reachable (set_log_callback c)"
| label_set: "reachable c \<Longrightarrow> reachable (set_proc_label label c)"
| args_appended: "reachable c \<Longrightarrow> reachable (append_args more_args c)"

text \<open>A stream that is not collected has no manager.\<close>

definition uncollected_unset :: "popen_proc_mgr \<Rightarrow> bool" where
  "uncollected_unset c =
     ((stdout_collect_option c \<or> stdout_manager c = None)
      \<and> (stderr_collect_option c \<or> stderr_manager c = None))"

text \<open>Whether a call ended with the \<open>TimeoutError\<close>.\<close>

fun timed_out :: "((error + 'a) \<times> popen_proc_mgr \<times> world) option \<Rightarrow> bool" where
  "timed_out (Some (Inl (TimeoutError command t stdout_lines stderr_lines), c, w)) = True"
| "timed_out other = False"

text \<open>
  Two frames. \<open>reads_only c c'\<close>: between \<open>c\<close> and \<open>c'\<close> nothing but the parsers inside
  the managers and the list of callback messages changed (no reference, no option, no
  process handle, no closed handle). \<open>moves_cursors_only w w'\<close>: between the two worlds
  nothing but read offsets changed.
\<close>

definition reads_only :: "popen_proc_mgr \<Rightarrow> popen_proc_mgr \<Rightarrow> bool" where
  "reads_only c c' =
     (c' = c\<lparr>managers := managers c', call_back_calls := call_back_calls c'\<rparr>
      \<and> (\<forall>r. managers c' r =
                (managers c r)\<lparr>stream_text_parser := stream_text_parser (managers c' r)\<rparr>))"

definition moves_cursors_only :: "world \<Rightarrow> world \<Rightarrow> bool" where
  "moves_cursors_only w w' =
     (w' = w\<lparr>files := files w'\<rparr>
      \<and> (\<forall>path. files w' path = (files w path)\<lparr>rpos := rpos (files w' path)\<rparr>))"

section \<open>Worlds to evaluate the model in\<close>

text \<open>
  A world with no file yet, in which every path exists, every spawn works and a kill
  would work; and two environments: a child that, at the controller's look number \<open>look\<close>, has
  written the given bytes to each of the given files and has exited with a return code,
  and a child that never exits while the clock advances by one second per look and that
  writes the given bytes to a file at that look.
\<close>

definition world0 :: world where
  "world0 =
     \<lparr>files = (\<lambda>path. \<lparr>content = [], rpos = 0, wpos = 0, on_disk = False\<rparr>),
      next_tmp = 0, poll = None, kill_outcome = Killed, monotonic = 0,
      path_exists = (\<lambda>path. True), resolvable = (\<lambda>path. True), spawn_ok = True,
      next_pid = 100\<rparr>"

fun child_writes :: "(nat \<times> bytes) list \<Rightarrow> world \<Rightarrow> world" where
  "child_writes [] w = w"
| "child_writes ((path, bs) # others) w =
     child_writes others (w\<lparr>files := (files w)(path := child_write bs (files w path))\<rparr>)"

definition child_prints_and_exits :: "nat \<Rightarrow> (nat \<times> bytes) list \<Rightarrow> int \<Rightarrow> environment" where
  "child_prints_and_exits look output rc k w =
     (if k = look then (child_writes output w)\<lparr>poll := Some rc\<rparr> else w)"

definition child_keeps_running :: "nat \<Rightarrow> (nat \<times> bytes) list \<Rightarrow> environment" where
  "child_keeps_running look output k w =
     (if k = look then (child_writes output w)\<lparr>monotonic := monotonic w + 1\<rparr>
      else w\<lparr>monotonic := monotonic w + 1\<rparr>)"

text \<open>
  The controller the constructor returns in \<open>world0\<close> for \<open>/bin/sh -c job\<close> with the given
  collection and merge options, with a callback set; the same after \<open>start\<close>; each with
  the world it is then in. With both streams collected apart, the managers of the constructor have the
  paths 0 and 1 and those of \<open>start\<close> the paths 2 (stdout) and 3 (stderr); with the merge
  option the one manager of \<open>start\<close> has the path 1.
\<close>

definition constructed_controller ::
  "bool \<Rightarrow> bool \<Rightarrow> bool \<Rightarrow> (popen_proc_mgr \<times> world) option" where
  "constructed_controller collect_stdout collect_stderr merge_std_output =
     (case PopenProcMgr ''/bin/sh'' [''-c'', ''job''] ''.'' collect_stdout collect_stderr
             merge_std_output 1000 1000 None ''tmp'' world0 of
        (Inl e, w) \<Rightarrow> None
      | (Inr c, w) \<Rightarrow> Some (set_log_callback c, w))"

definition started_controller :: "bool \<Rightarrow> bool \<Rightarrow> bool \<Rightarrow> (popen_proc_mgr \<times> world) option" where
  "started_controller collect_stdout collect_stderr merge_std_output =
     (case constructed_controller collect_stdout collect_stderr merge_std_output of
        None \<Rightarrow> None
      | Some (c, w) \<Rightarrow>
          (case start c w of
             (Inl e, c', w') \<Rightarrow> None
           | (Inr u, c', w') \<Rightarrow> Some (c', w')))"

section \<open>Properties of the line reader\<close>

subsection \<open>One iteration of the loop\<close>

lemma readlines_loop_step:
  assumes "n = - 1 \<or> int (length (lines v)) < n"
    and "readline unread = (raw, rest)"
    and "slice_to m raw \<noteq> []"
  shows "readlines_loop dec chardet n m strict unread v =
           (case decode_retry dec chardet strict (slice_to m raw) 3
                   (v\<lparr>read_size := read_size v + length raw\<rparr>) of
              (Inl e, v2) \<Rightarrow> (Inl e, v2)
            | (Inr None, v2) \<Rightarrow> readlines_loop dec chardet n m strict rest v2
            | (Inr (Some decoded_line), v2) \<Rightarrow>
                readlines_loop dec chardet n m strict rest
                  (v2\<lparr>lines := lines v2 @ [decoded_line]\<rparr>))"
  using assms by (subst readlines_loop.simps) (simp add: Let_def)

lemma readlines_loop_break:
  assumes "n = - 1 \<or> int (length (lines v)) < n"
    and "readline unread = (raw, rest)"
    and "slice_to m raw = []"
  shows "readlines_loop dec chardet n m strict unread v =
           (Inr (lines v, read_size v + length raw),
            v\<lparr>read_size := read_size v + length raw\<rparr>)"
  using assms by (subst readlines_loop.simps) (simp add: Let_def)




lemma slice_to_minus_one: "slice_to (- 1) xs = butlast xs"
  by (simp add: slice_to_def butlast_conv_take)

subsection \<open>The slice of a raw line and the end of a read\<close>




subsection \<open>A decode failure the detector has no guess for\<close>



subsection \<open>Three failed attempts\<close>

text \<open>
  C10: the line fails to decode, the detector names an encoding, and the line fails under
  that encoding too (the detector is a function of the bytes, so it names the same
  encoding at every attempt). After the three attempts the loop goes on with the bytes
  after the line: nothing was appended to the lines, the bytes of the line are counted in
  the size, and the encoding named is the one learned. The returned size then exceeds
  what the returned lines account for.
\<close>

theorem three_failed_attempts_omit_line:
  assumes "n = - 1 \<or> int (length (lines v)) < n"
    and "readline unread = (raw, rest)"
    and "slice_to m raw \<noteq> []"
    and "dec (encoding v) (errors_strategy v) (slice_to m raw) = UnicodeDecodeError"
    and "detect_bytes_encoding chardet (slice_to m raw) = Some e"
    and "dec e (errors_strategy v) (slice_to m raw) = UnicodeDecodeError"
  shows "readlines_loop dec chardet n m strict unread v =
           readlines_loop dec chardet n m strict rest
             (v\<lparr>read_size := read_size v + length raw, encoding := e,
                self_fixed_encoding := e\<rparr>)"
  using assms
  by (simp add: readlines_loop_step [OF assms(1-3)] eval_nat_numeral)

theorem three_failed_attempts_omit_line_witness:
  "readline ([CHR 0xFF, LF] @ ''cd'' @ [LF]) = ([CHR 0xFF, LF], ''cd'' @ [LF])
   \<and> slice_to (- 1) [CHR 0xFF, LF] \<noteq> []
   \<and> seven_bit_codecs (encoding (initial_vars (TextFileParser ''utf-8'')))
        (errors_strategy (initial_vars (TextFileParser ''utf-8'')))
        (slice_to (- 1) [CHR 0xFF, LF]) = UnicodeDecodeError
   \<and> detect_bytes_encoding chardet_ascii (slice_to (- 1) [CHR 0xFF, LF]) = Some ''utf-8''
   \<and> readlines_loop seven_bit_codecs chardet_ascii (- 1) (- 1) False
        ([CHR 0xFF, LF] @ ''cd'' @ [LF]) (initial_vars (TextFileParser ''utf-8''))
      = readlines_loop seven_bit_codecs chardet_ascii (- 1) (- 1) False (''cd'' @ [LF])
          ((initial_vars (TextFileParser ''utf-8''))
             \<lparr>read_size := read_size (initial_vars (TextFileParser ''utf-8''))
                             + length [CHR 0xFF, LF],
              encoding := ''utf-8'', self_fixed_encoding := ''utf-8''\<rparr>)
   \<and> readlines_with_encoding_fix seven_bit_codecs chardet_ascii (TextFileParser ''utf-8'')
        ([CHR 0xFF, LF] @ ''cd'' @ [LF]) 0 (- 1) (- 1) False
      = (Inr ([map of_char ''cd''], 5),
         \<lparr>default_encoding = ''utf-8'', fixed_encoding = ''utf-8''\<rparr>, 5)"
proof -
  let ?v = "initial_vars (TextFileParser ''utf-8'')"
  have c: "(- 1 :: int) = - 1 \<or> int (length (lines ?v)) < - 1"
    by simp
  have r: "readline ([CHR 0xFF, LF] @ ''cd'' @ [LF]) = ([CHR 0xFF, LF], ''cd'' @ [LF])"
    by code_simp
  have ne: "slice_to (- 1) [CHR 0xFF, LF] \<noteq> []"
    by code_simp
  have f: "seven_bit_codecs (encoding ?v) (errors_strategy ?v) (slice_to (- 1) [CHR 0xFF, LF])
             = UnicodeDecodeError"
    by code_simp
  have g: "detect_bytes_encoding chardet_ascii (slice_to (- 1) [CHR 0xFF, LF]) = Some ''utf-8''"
    by code_simp
  have f2: "seven_bit_codecs ''utf-8'' (errors_strategy ?v) (slice_to (- 1) [CHR 0xFF, LF])
              = UnicodeDecodeError"
    by code_simp
  note t = three_failed_attempts_omit_line
    [where dec = seven_bit_codecs and chardet = chardet_ascii and v = "?v" and n = "- 1"
       and m = "- 1" and unread = "[CHR 0xFF, LF] @ ''cd'' @ [LF]" and raw = "[CHR 0xFF, LF]"
       and rest = "''cd'' @ [LF]" and e = "''utf-8''" and strict = False, OF c r ne f g f2]
  have call:
    "readlines_with_encoding_fix seven_bit_codecs chardet_ascii (TextFileParser ''utf-8'')
       ([CHR 0xFF, LF] @ ''cd'' @ [LF]) 0 (- 1) (- 1) False
     = (Inr ([map of_char ''cd''], 5),
        \<lparr>default_encoding = ''utf-8'', fixed_encoding = ''utf-8''\<rparr>, 5)"
    by code_simp
  show ?thesis
    using r ne f g t call by (intro conjI)
qed

subsection \<open>The learned encoding\<close>

lemma uses_learned_initial: "uses_learned (initial_vars p)"
  by (simp add: uses_learned_def initial_vars_def)

lemma decode_retry_uses_learned:
  "uses_learned v \<Longrightarrow> uses_learned (snd (decode_retry dec chardet strict raw_line k v))"
proof (induction k arbitrary: v)
  case 0
  then show ?case by simp
next
  case (Suc k)
  have a: "uses_learned (v\<lparr>errors_strategy := Replace\<rparr>)"
    using Suc.prems by (simp add: uses_learned_def)
  have b: "uses_learned (v\<lparr>encoding := e, self_fixed_encoding := e\<rparr>)" for e
    by (simp add: uses_learned_def)
  show ?case
    using Suc.IH [OF a] Suc.IH [OF b] Suc.prems
    by (cases strict) (simp_all split: decode_result.splits option.splits)
qed

lemma readlines_loop_uses_learned:
  "uses_learned v \<Longrightarrow> uses_learned (snd (readlines_loop dec chardet n m strict unread v))"
proof (induction dec chardet n m strict unread v rule: readlines_loop.induct)
  case (1 dec chardet n m strict unread v)
  obtain raw rest where r: "readline unread = (raw, rest)"
    by (cases "readline unread")
  let ?v1 = "v\<lparr>read_size := read_size v + length raw\<rparr>"
  obtain res v2 where d: "decode_retry dec chardet strict (slice_to m raw) 3 ?v1 = (res, v2)"
    by (cases "decode_retry dec chardet strict (slice_to m raw) 3 ?v1")
  have v1: "uses_learned ?v1"
    using "1.prems" by (simp add: uses_learned_def)
  have v2: "uses_learned v2"
    using decode_retry_uses_learned [OF v1, of dec chardet strict "slice_to m raw" 3] d
    by simp
  show ?case
  proof (cases "n = - 1 \<or> int (length (lines v)) < n")
    case False
    then show ?thesis
      using "1.prems" by (subst readlines_loop.simps) simp
  next
    case c: True
    show ?thesis
    proof (cases "slice_to m raw = []")
      case True
      then show ?thesis
        using v1 by (simp add: readlines_loop_break [OF c r])
    next
      case ne: False
      show ?thesis
      proof (cases res)
        case (Inl e)
        then show ?thesis
          using v2 d by (simp add: readlines_loop_step [OF c r ne])
      next
        case (Inr line)
        show ?thesis
        proof (cases line)
          case None
          have "uses_learned (snd (readlines_loop dec chardet n m strict rest v2))"
            using "1.IH"(1) [OF c r [symmetric] refl refl _ d [symmetric]] ne Inr None v2
            by simp
          then show ?thesis
            using d Inr None by (simp add: readlines_loop_step [OF c r ne])
        next
          case (Some l)
          have "uses_learned (v2\<lparr>lines := lines v2 @ [l]\<rparr>)"
            using v2 by (simp add: uses_learned_def)
          then have "uses_learned (snd (readlines_loop dec chardet n m strict rest
                                          (v2\<lparr>lines := lines v2 @ [l]\<rparr>)))"
            using "1.IH"(2) [OF c r [symmetric] refl refl _ d [symmetric]] ne Inr Some
            by simp
          then show ?thesis
            using d Inr Some by (simp add: readlines_loop_step [OF c r ne])
        qed
      qed
    qed
  qed
qed










section \<open>Properties of the size monitor\<close>

lemma reset_both:
  "fold reset_file_obj [ReadPipe, WritePipe] f = f\<lparr>content := [], rpos := 0, wpos := 0\<rparr>"
  by (simp add: reset_file_obj_def truncate0_def)

lemma monitor_condition:
  "((of_int limit :: rat) * (1 / 2) < of_int (file_size - limit))
     = (3 * limit < 2 * file_size)"
proof -
  have "((of_int limit :: rat) * (1 / 2) < of_int (file_size - limit))
          = ((of_int limit :: rat) < 2 * of_int (file_size - limit))"
    by (simp add: field_simps)
  also have "\<dots> = ((of_int limit :: rat) < of_int (2 * (file_size - limit)))"
    by simp
  also have "\<dots> = (limit < 2 * (file_size - limit))"
    by (simp only: of_int_less_iff)
  also have "\<dots> = (3 * limit < 2 * file_size)"
    by arith
  finally show ?thesis .
qed

lemma readlines_loop_at_end:
  "readlines_loop dec chardet n m strict [] v = (Inr (lines v, read_size v), v)"
  by (subst readlines_loop.simps) simp

text \<open>A ceiling below \<open>2^53\<close> is a double as it stands.\<close>

lemma float_of_int_exact:
  assumes "0 \<le> limit" and "limit < 2 ^ 53"
  shows "float_of_int limit = Some (of_int limit)"
proof -
  have e: "double_exponent limit = 0"
    using assms(2) by (subst double_exponent.simps) simp
  have n: "nearest_double limit = limit"
    by (simp add: nearest_double_def e)
  have "(2 :: int) ^ 53 \<le> 2 ^ 1024"
    by (rule power_increasing) simp_all
  then have "\<bar>limit\<bar> < 2 ^ 1024"
    using assms by linarith
  then show ?thesis
    using assms(1) by (simp add: float_of_int_def n Let_def)
qed

lemma exceeds_half_exact:
  assumes "0 \<le> limit" and "limit < 2 ^ 53"
  shows "exceeds_half (file_size - limit) limit = Some (3 * limit < 2 * file_size)"
  by (simp only: exceeds_half_def float_of_int_exact [OF assms] option.case
        monitor_condition)

text \<open>
  From \<open>2^53\<close> on the double is not the ceiling: at the ceiling \<open>2^53 + 3\<close>, which as a
  double is \<open>2^53 + 4\<close>, a file of 13510798882111493 bytes is more than one and a half
  times the ceiling, and the guard is false.
\<close>

lemma exceeds_half_rounds:
  "float_of_int 9007199254740995 = Some 9007199254740996
   \<and> exceeds_half (13510798882111493 - 9007199254740995) 9007199254740995 = Some False
   \<and> (3 * 9007199254740995 < 2 * (13510798882111493 :: int))"
  by code_simp

text \<open>
  C3, for a ceiling the monitor runs with (it is positive) and that a double holds
  exactly (it is below \<open>2^53\<close>): a round of the monitor resets exactly when twice the size
  exceeds three times the ceiling, which is when the size minus the ceiling exceeds half
  the ceiling. The reset leaves the file empty with both handles at offset 0, and
  otherwise nothing changes. After a reset a call of the reader returns none of the
  bytes that were in the file, read or not, the stream is at its end, and what the
  child writes next is all the file holds.
\<close>

theorem size_monitor_reset:
  assumes "0 < limit" and "limit < 2 ^ 53"
  shows "file_size_monitor limit f
           = Some (if 3 * limit < 2 * int (length (content f))
                   then (True, f\<lparr>content := [], rpos := 0, wpos := 0\<rparr>)
                   else (False, f))
       \<and> (3 * limit < 2 * int (length (content f)))
           = ((of_int limit :: rat) * (1 / 2) < of_int (int (length (content f)) - limit))
       \<and> (\<forall>f'. file_size_monitor limit f = Some (True, f') \<longrightarrow>
              readlines_with_encoding_fix dec chardet p (content f') (rpos f') n m strict
                = (Inr ([], 0), p, 0)
            \<and> reach_end (content f') (rpos f')
            \<and> wpos f' = 0
            \<and> content (child_write bs f') = bs)"
proof -
  have nonneg: "0 \<le> limit"
    using assms(1) by simp
  have a: "file_size_monitor limit f
             = Some (if 3 * limit < 2 * int (length (content f))
                     then (True, f\<lparr>content := [], rpos := 0, wpos := 0\<rparr>)
                     else (False, f))"
    by (simp add: file_size_monitor_def Let_def exceeds_half_exact [OF nonneg assms(2)]
          reset_file_obj_def truncate0_def)
  have b: "(3 * limit < 2 * int (length (content f)))
             = ((of_int limit :: rat) * (1 / 2) < of_int (int (length (content f)) - limit))"
    by (simp only: monitor_condition)
  have c: "readlines_with_encoding_fix dec chardet p (content f') (rpos f') n m strict
             = (Inr ([], 0), p, 0)
           \<and> reach_end (content f') (rpos f')
           \<and> wpos f' = 0
           \<and> content (child_write bs f') = bs"
    if "file_size_monitor limit f = Some (True, f')" for f'
  proof -
    have f': "f' = f\<lparr>content := [], rpos := 0, wpos := 0\<rparr>"
      using that a by (simp split: if_splits)
    show ?thesis
      by (simp add: f' readlines_with_encoding_fix_def readlines_loop_at_end initial_vars_def
            reach_end_def child_write_def)
  qed
  show ?thesis
    using a b c by blast
qed

theorem size_monitor_reset_witness:
  "(0 :: int) < 10 \<and> (10 :: int) < 2 ^ 53
   \<and> file_size_monitor 10 \<lparr>content = replicate 15 (CHR ''x''), rpos = 4, wpos = 15,
                            on_disk = True\<rparr>
     = Some (False, \<lparr>content = replicate 15 (CHR ''x''), rpos = 4, wpos = 15,
                     on_disk = True\<rparr>)
   \<and> file_size_monitor 10 \<lparr>content = replicate 16 (CHR ''x''), rpos = 4, wpos = 16,
                            on_disk = True\<rparr>
     = Some (True, \<lparr>content = [], rpos = 0, wpos = 0, on_disk = True\<rparr>)
   \<and> readlines_with_encoding_fix seven_bit_codecs chardet_none (TextFileParser ''utf-8'')
        (content \<lparr>content = [], rpos = 0, wpos = 0, on_disk = True\<rparr>)
        (rpos \<lparr>content = [], rpos = 0, wpos = 0, on_disk = True\<rparr>) (- 1) (- 1) False
     = (Inr ([], 0), TextFileParser ''utf-8'', 0)
   \<and> content (child_write ''new'' \<lparr>content = [], rpos = 0, wpos = 0, on_disk = True\<rparr>)
     = ''new''"
proof -
  let ?f = "\<lparr>content = replicate 15 (CHR ''x''), rpos = 4, wpos = 15, on_disk = True\<rparr>"
  let ?g = "\<lparr>content = replicate 16 (CHR ''x''), rpos = 4, wpos = 16, on_disk = True\<rparr>"
  let ?e = "\<lparr>content = [], rpos = 0, wpos = 0, on_disk = True\<rparr>"
  have p1: "(0 :: int) < 10" and p2: "(10 :: int) < 2 ^ 53"
    by simp_all
  note tf = size_monitor_reset [where limit = 10 and f = "?f", OF p1 p2]
  note tg = size_monitor_reset
    [where limit = 10 and f = "?g" and dec = seven_bit_codecs and chardet = chardet_none
       and p = "TextFileParser ''utf-8''" and n = "- 1" and m = "- 1" and strict = False
       and bs = "''new''", OF p1 p2]
  have f1: "file_size_monitor 10 ?f = Some (False, ?f)"
    using tf [THEN conjunct1] by simp
  have g1: "file_size_monitor 10 ?g = Some (True, ?e)"
    using tg [THEN conjunct1] by simp
  note after = tg [THEN conjunct2, THEN conjunct2, THEN spec, of ?e, THEN mp, OF g1]
  have g2: "readlines_with_encoding_fix seven_bit_codecs chardet_none (TextFileParser ''utf-8'')
              (content ?e) (rpos ?e) (- 1) (- 1) False
            = (Inr ([], 0), TextFileParser ''utf-8'', 0)"
    by (rule after [THEN conjunct1])
  have g3: "content (child_write ''new'' ?e) = ''new''"
    by (rule after [THEN conjunct2, THEN conjunct2, THEN conjunct2])
  show ?thesis
    using p1 p2 f1 g1 g2 g3 by (intro conjI)
qed

section \<open>Properties of the controller\<close>

subsection \<open>What reading and waiting leave alone\<close>

lemma reads_only_refl: "reads_only c c"
  by (simp add: reads_only_def)

lemma reads_only_trans: "reads_only a b \<Longrightarrow> reads_only b c \<Longrightarrow> reads_only a c"
  unfolding reads_only_def
  by (metis (no_types, lifting) popen_proc_mgr.surjective popen_proc_mgr.update_convs(12)
      popen_proc_mgr.update_convs(16) std_stream_manager.surjective
      std_stream_manager.update_convs(3))

lemma pick_lines_frame:
  assumes "pick_lines dec chardet m w n ml strict = (r, m', w')"
  shows "m' = m\<lparr>stream_text_parser := stream_text_parser m'\<rparr>"
    and "moves_cursors_only w w'"
  using assms
  by (auto simp: pick_lines_def Let_def moves_cursors_only_def split: prod.splits)

lemma pick_stdout_frame:
  assumes "pick_stdout dec chardet c w n ml strict = (r, c', w')"
  shows "reads_only c c'" and "moves_cursors_only w w'"
    and "call_back_calls c' = call_back_calls c"
  using assms pick_lines_frame
  by (auto simp: pick_stdout_def reads_only_def moves_cursors_only_def
      split: option.splits prod.splits)

lemma pick_stderr_frame:
  assumes "pick_stderr dec chardet c w n ml strict = (r, c', w')"
  shows "reads_only c c'" and "moves_cursors_only w w'"
    and "call_back_calls c' = call_back_calls c"
  using assms pick_lines_frame
  by (auto simp: pick_stderr_def reads_only_def moves_cursors_only_def
      split: option.splits prod.splits if_splits)

lemma log_lines_frame: "reads_only c (log_lines stream buffer c)"
  by (simp add: log_lines_def reads_only_def)

lemma reads_only_fields:
  assumes "reads_only c c'"
  shows "popen c' = popen c" and "stdout_manager c' = stdout_manager c"
    and "stderr_manager c' = stderr_manager c"
    and "stdout_collect_option c' = stdout_collect_option c"
    and "stderr_collect_option c' = stderr_collect_option c"
    and "merget_option c' = merget_option c"
    and "cmd c' = cmd c" and "proc_label c' = proc_label c" and "call_back c' = call_back c"
    and "handles_closed (managers c' r) = handles_closed (managers c r)"
    and "size_monitor_signal (managers c' r) = size_monitor_signal (managers c r)"
    and "stream_collcet_file_path (managers c' r) = stream_collcet_file_path (managers c r)"
proof -
  have eq: "c' = c\<lparr>managers := managers c', call_back_calls := call_back_calls c'\<rparr>"
    and m: "managers c' r =
              (managers c r)\<lparr>stream_text_parser := stream_text_parser (managers c' r)\<rparr>"
    using assms by (simp_all add: reads_only_def)
  show "popen c' = popen c" by (subst eq) simp
  show "stdout_manager c' = stdout_manager c" by (subst eq) simp
  show "stderr_manager c' = stderr_manager c" by (subst eq) simp
  show "stdout_collect_option c' = stdout_collect_option c" by (subst eq) simp
  show "stderr_collect_option c' = stderr_collect_option c" by (subst eq) simp
  show "merget_option c' = merget_option c" by (subst eq) simp
  show "cmd c' = cmd c" unfolding cmd_def by (subst (1 2) eq) simp
  show "proc_label c' = proc_label c" by (subst eq) simp
  show "call_back c' = call_back c" by (subst eq) simp
  show "handles_closed (managers c' r) = handles_closed (managers c r)"
    by (subst m) simp
  show "size_monitor_signal (managers c' r) = size_monitor_signal (managers c r)"
    by (subst m) simp
  show "stream_collcet_file_path (managers c' r) = stream_collcet_file_path (managers c r)"
    by (subst m) simp
qed


lemma check_deadline_no_timeout:
  "timeout = None \<or> timeout = Some 0 \<Longrightarrow>
     check_deadline env k timeout end_time c w stdout_lines stderr_lines = (Inr (), w)"
  by (auto simp: check_deadline_def)

lemma wait_body_frame:
  assumes "wait_body dec chardet env timeout end_time k c w so se = (r, c', w')"
  shows "reads_only c c'"
proof -
  obtain r1 c1 w1 where e:
    "pick_stderr dec chardet c (env (k + 3) w) (- 1) (- 1) False = (r1, c1, w1)"
    by (cases "pick_stderr dec chardet c (env (k + 3) w) (- 1) (- 1) False")
  have f1: "reads_only c c1"
    using pick_stderr_frame(1) [OF e] .
  show ?thesis
  proof (cases r1)
    case (Inl x)
    then show ?thesis
      using assms e f1 by (simp add: wait_body_def)
  next
    case (Inr b1)
    obtain stderr_buffer n1 where b1: "b1 = (stderr_buffer, n1)"
      by (cases b1)
    let ?c1 = "log_lines ''stderr'' stderr_buffer c1"
    obtain r2 c2 w2 where o:
      "pick_stdout dec chardet ?c1 (env (k + 4) w1) (- 1) (- 1) False = (r2, c2, w2)"
      by (cases "pick_stdout dec chardet ?c1 (env (k + 4) w1) (- 1) (- 1) False")
    have f2: "reads_only c c2"
      using f1 log_lines_frame [of c1 "''stderr''" stderr_buffer] pick_stdout_frame(1) [OF o]
      by (blast intro: reads_only_trans)
    show ?thesis
    proof (cases r2)
      case (Inl x)
      then show ?thesis
        using assms e o Inr b1 f2 by (simp add: wait_body_def)
    next
      case r2: (Inr b2)
      obtain stdout_buffer n2 where b2: "b2 = (stdout_buffer, n2)"
        by (cases b2)
      have f3: "reads_only c (log_lines ''stdout'' stdout_buffer c2)"
        using f2 log_lines_frame [of c2 "''stdout''" stdout_buffer]
        by (blast intro: reads_only_trans)
      show ?thesis
        using assms e o Inr b1 r2 b2 f3
        by (auto simp: wait_body_def split: prod.splits sum.splits)
    qed
  qed
qed

lemma wait_loop_frame:
  "wait_loop fuel dec chardet env timeout end_time k c w so se = Some (r, c', w')
     \<Longrightarrow> reads_only c c'"
proof (induction fuel arbitrary: k c w so se)
  case 0
  then show ?case by simp
next
  case (Suc fuel)
  obtain g wg where cond: "loop_condition env k c w = (g, wg)"
    by (cases "loop_condition env k c w")
  show ?case
  proof (cases g)
    case (Inl e)
    then show ?thesis
      using Suc.prems cond by (simp add: reads_only_refl)
  next
    case (Inr go)
    show ?thesis
    proof (cases go)
      case False
      then show ?thesis
        using Suc.prems cond Inr by (simp add: reads_only_refl)
    next
      case True
      obtain rb cb wb where b:
        "wait_body dec chardet env timeout end_time k c wg so se = (rb, cb, wb)"
        by (cases "wait_body dec chardet env timeout end_time k c wg so se")
      have fb: "reads_only c cb"
        using wait_body_frame [OF b] .
      show ?thesis
      proof (cases rb)
        case (Inl e)
        then show ?thesis
          using Suc.prems cond Inr True b fb by simp
      next
        case rb: (Inr acc)
        obtain so' se' where acc: "acc = (so', se')"
          by (cases acc)
        have "wait_loop fuel dec chardet env timeout end_time (k + 7) cb wb so' se'
                = Some (r, c', w')"
          using Suc.prems cond Inr True b rb acc by simp
        then have "reads_only cb c'"
          by (rule Suc.IH)
        then show ?thesis
          using fb by (blast intro: reads_only_trans)
      qed
    qed
  qed
qed

subsection \<open>A timeout of zero\<close>

lemma loop_condition_error:
  "loop_condition env k c w = (Inl e, w') \<Longrightarrow> e = AssertionError ''Process is not started.''"
  by (auto simp: loop_condition_def is_living_def split: prod.splits bool.splits
      option.splits)

lemma wait_body_zero_timeout:
  "wait_body dec chardet env (Some 0) end_time k c w so se
     = wait_body dec chardet env None None k c w so se"
  by (simp add: wait_body_def check_deadline_def split: prod.splits sum.splits)

lemma wait_body_no_timeout_error:
  "wait_body dec chardet env None None k c w so se = (Inl e, c', w')
     \<Longrightarrow> \<exists>re. e = ReadError re"
  by (auto simp: wait_body_def check_deadline_def split: prod.splits sum.splits)

lemma wait_loop_zero_timeout:
  "wait_loop fuel dec chardet env (Some 0) end_time k c w so se
     = wait_loop fuel dec chardet env None None k c w so se"
  by (induction fuel arbitrary: k c w so se)
    (simp_all add: wait_body_zero_timeout split: prod.splits sum.splits bool.splits)

lemma wait_loop_no_timeout:
  "\<not> timed_out (wait_loop fuel dec chardet env None None k c w so se)"
proof (induction fuel arbitrary: k c w so se)
  case 0
  then show ?case by simp
next
  case (Suc fuel)
  obtain g wg where cond: "loop_condition env k c w = (g, wg)"
    by (cases "loop_condition env k c w")
  show ?case
  proof (cases g)
    case (Inl e)
    then show ?thesis
      using cond loop_condition_error [of env k c w e wg] by simp
  next
    case (Inr go)
    show ?thesis
    proof (cases go)
      case False
      then show ?thesis
        using cond Inr by simp
    next
      case True
      obtain rb cb wb where b:
        "wait_body dec chardet env None None k c wg so se = (rb, cb, wb)"
        by (cases "wait_body dec chardet env None None k c wg so se")
      show ?thesis
      proof (cases rb)
        case (Inl e)
        then obtain re where "e = ReadError re"
          using wait_body_no_timeout_error b by blast
        then show ?thesis
          using cond Inr True b Inl by simp
      next
        case rb: (Inr acc)
        obtain so' se' where acc: "acc = (so', se')"
          by (cases acc)
        show ?thesis
          using Suc.IH [of "k + 7" cb wb so' se'] cond Inr True b rb acc by simp
      qed
    qed
  qed
qed

lemma clean_error:
  "clean delete_output_file c w = (Inl e, c', w')
     \<Longrightarrow> e = AssertionError ''Process is not started.'' \<or> e = PsutilTimeoutExpired"
  by (auto simp: clean_def kill_def is_living_def kill_process_tree_def
      split: if_splits option.splits prod.splits sum.splits bool.splits kill_outcome.splits)

lemma private_wait_no_timeout:
  "\<not> timed_out (private_wait fuel dec chardet env None del_tmpfile c w)"
proof (cases "wait_loop fuel dec chardet env None None 0 c w [] []")
  case None
  then show ?thesis
    by (simp add: private_wait_def)
next
  case (Some res)
  obtain r c' w' where res: "res = (r, c', w')"
    by (cases res)
  show ?thesis
  proof (cases r)
    case (Inl e)
    have "\<not> timed_out (Some (Inl e :: error + str list \<times> str list, c', w'))"
      using wait_loop_no_timeout [of fuel dec chardet env 0 c w "[]" "[]"] Some res Inl
      by simp
    then have "\<not> timed_out (Some (Inl e :: error + proc_result, c', w'))"
      by (cases e) simp_all
    then show ?thesis
      using Some res Inl by (simp add: private_wait_def)
  next
    case (Inr acc)
    obtain so se where acc: "acc = (so, se)"
      by (cases acc)
    obtain rc c'' w'' where cl: "clean del_tmpfile c' w' = (rc, c'', w'')"
      by (cases "clean del_tmpfile c' w'")
    show ?thesis
    proof (cases rc)
      case (Inl e)
      then show ?thesis
        using Some res Inr acc cl clean_error [of del_tmpfile c' w' e c'' w'']
        by (auto simp: private_wait_def)
    next
      case r2: (Inr u)
      then show ?thesis
        using Some res Inr acc cl by (simp add: private_wait_def)
    qed
  qed
qed

lemma private_wait_zero_timeout:
  "private_wait fuel dec chardet env (Some 0) del_tmpfile c w
     = private_wait fuel dec chardet env None del_tmpfile c w"
  by (simp add: private_wait_def wait_loop_zero_timeout)

lemma start_error:
  "start c w = (Inl e, c', w') \<Longrightarrow> (\<exists>m. e = AssertionError m) \<or> (\<exists>m. e = OSError m)"
  by (auto simp: start_def Let_def split: if_splits option.splits prod.splits sum.splits)

text \<open>
  C9: with a timeout of zero the call is the call without a timeout, and it never ends
  with the \<open>TimeoutError\<close>, whatever the child and the clock do and however many
  iterations the loop is given.
\<close>

theorem zero_timeout_never_times_out:
  "private_wait fuel dec chardet env (Some 0) del_tmpfile c w
     = private_wait fuel dec chardet env None del_tmpfile c w
   \<and> wait fuel dec chardet env (Some 0) c w = wait fuel dec chardet env None c w
   \<and> run fuel dec chardet env (Some 0) del_tmpfile c w
       = run fuel dec chardet env None del_tmpfile c w
   \<and> \<not> timed_out (wait fuel dec chardet env (Some 0) c w)
   \<and> \<not> timed_out (run fuel dec chardet env (Some 0) del_tmpfile c w)"
proof -
  have a: "\<not> timed_out (run fuel dec chardet env None del_tmpfile c w)"
  proof (cases "start c w")
    case (fields r c' w')
    show ?thesis
    proof (cases r)
      case (Inl e)
      then show ?thesis
        using fields start_error [of c w e c' w'] by (auto simp: run_def)
    next
      case (Inr u)
      then show ?thesis
        using fields private_wait_no_timeout [of fuel dec chardet env del_tmpfile c' w']
        by (simp add: run_def)
    qed
  qed
  have b: "run fuel dec chardet env (Some 0) del_tmpfile c w
             = run fuel dec chardet env None del_tmpfile c w"
    by (simp add: run_def private_wait_zero_timeout split: prod.splits sum.splits)
  show ?thesis
    using a b private_wait_no_timeout [of fuel dec chardet env True c w]
    by (simp add: wait_def private_wait_zero_timeout)
qed

theorem zero_timeout_never_times_out_witness:
  "(case started_controller True True False of
      None \<Rightarrow> False
    | Some (c, w) \<Rightarrow>
        \<not> timed_out (wait 25 seven_bit_codecs chardet_none (child_keeps_running 3 [])
                       (Some 0) c w)
        \<and> (case wait 25 seven_bit_codecs chardet_none (child_keeps_running 3 [])
                   (Some 0) c w of
              None \<Rightarrow> True
            | Some res \<Rightarrow> False)
        \<and> timed_out (wait 25 seven_bit_codecs chardet_none (child_keeps_running 3 [])
                       (Some 2) c w))"
proof -
  obtain c w where s: "started_controller True True False = Some (c, w)"
    and rest: "(case wait 25 seven_bit_codecs chardet_none (child_keeps_running 3 [])
                       (Some 0) c w of
                  None \<Rightarrow> True
                | Some res \<Rightarrow> False)
               \<and> timed_out (wait 25 seven_bit_codecs chardet_none (child_keeps_running 3 [])
                              (Some 2) c w)"
  proof -
    have "(case started_controller True True False of
             None \<Rightarrow> False
           | Some (c, w) \<Rightarrow>
               (case wait 25 seven_bit_codecs chardet_none (child_keeps_running 3 [])
                       (Some 0) c w of
                  None \<Rightarrow> True
                | Some res \<Rightarrow> False)
               \<and> timed_out (wait 25 seven_bit_codecs chardet_none (child_keeps_running 3 [])
                              (Some 2) c w))"
      by code_simp
    then show ?thesis
      using that by (auto split: option.splits)
  qed
  have "\<not> timed_out (wait 25 seven_bit_codecs chardet_none (child_keeps_running 3 [])
                       (Some 0) c w)"
    by (rule zero_timeout_never_times_out
        [of 25 seven_bit_codecs chardet_none "child_keeps_running 3 []" True c w,
         THEN conjunct2, THEN conjunct2, THEN conjunct2, THEN conjunct1])
  then show ?thesis
    using s rest by simp
qed

subsection \<open>Streams that are not collected\<close>

lemma setup_output_manager_keeps:
  assumes "setup_output_manager c w = (c', w')"
  shows "stdout_collect_option c' = stdout_collect_option c"
    and "stderr_collect_option c' = stderr_collect_option c"
    and "merget_option c' = merget_option c"
    and "popen c' = popen c"
    and "stdout_collect_option c \<or> stdout_manager c' = stdout_manager c"
    and "stderr_collect_option c \<or> stderr_manager c' = stderr_manager c"
  using assms
  by (auto simp: setup_output_manager_def new_manager_def StdStreamManager_def
      split: if_splits prod.splits)

lemma setup_output_manager_unset:
  "uncollected_unset c \<Longrightarrow> setup_output_manager c w = (c', w') \<Longrightarrow> uncollected_unset c'"
  using setup_output_manager_keeps [of c w c' w']
  by (auto simp: uncollected_unset_def)

lemma constructor_unset:
  assumes "PopenProcMgr exe arguments dir collect_stdout collect_stderr merge_std_output
             stdout_size stderr_size stdin_file label w = (Inr c, w')"
  shows "uncollected_unset c"
proof -
  let ?c0 = "\<lparr>executable_path = exe, args = arguments, cwd = dir,
              stdin_file_path = stdin_file, stdin_file_stream = False,
              merget_option = merge_std_output,
              stdout_collect_option = collect_stdout,
              stderr_collect_option = collect_stderr,
              stdout_buffer_size = stdout_size, stderr_buffer_size = stderr_size,
              proc_label = label,
              managers = (\<lambda>r. no_manager),
              stdout_manager = None, stderr_manager = None,
              call_back = False, call_back_calls = [], popen = None\<rparr>"
  have "uncollected_unset ?c0"
    by (simp add: uncollected_unset_def)
  moreover have "setup_output_manager ?c0 w = (c, w')"
    using assms by (auto simp: PopenProcMgr_def split: if_splits prod.splits)
  ultimately show ?thesis
    by (rule setup_output_manager_unset)
qed

lemma start_unset:
  assumes "uncollected_unset c" and "start c w = (r, c', w')"
  shows "uncollected_unset c'"
proof (cases "popen c \<noteq> None")
  case True
  then show ?thesis
    using assms by (simp add: start_def)
next
  case False
  obtain c1 w1 where s: "setup_output_manager c w = (c1, w1)"
    by (cases "setup_output_manager c w")
  have u: "uncollected_unset c1"
    using setup_output_manager_unset [OF assms(1) s] .
  have "uncollected_unset c' = uncollected_unset c1"
    using assms(2) False s
    by (auto simp: start_def Let_def uncollected_unset_def
        split: option.splits if_splits sum.splits)
  then show ?thesis
    using u by simp
qed

lemma clean_unset:
  assumes "uncollected_unset c" and "clean delete_output_file c w = (r, c', w')"
  shows "uncollected_unset c'"
  using assms
  by (auto simp: clean_def release_manager_def uncollected_unset_def
      split: if_splits option.splits prod.splits sum.splits)

lemma reads_only_unset: "reads_only c c' \<Longrightarrow> uncollected_unset c \<Longrightarrow> uncollected_unset c'"
  using reads_only_fields [of c c'] by (simp add: uncollected_unset_def)

lemma private_wait_unset:
  assumes "uncollected_unset c"
    and "private_wait fuel dec chardet env timeout del_tmpfile c w = Some (r, c', w')"
  shows "uncollected_unset c'"
proof (cases "wait_loop fuel dec chardet env timeout
                (case timeout of None \<Rightarrow> None
                 | Some t \<Rightarrow> if t = 0 then None else Some (monotonic w + t))
                0 c w [] []")
  case None
  then show ?thesis
    using assms(2) by (simp add: private_wait_def)
next
  case (Some res)
  obtain rl cl wl where res: "res = (rl, cl, wl)"
    by (cases res)
  have u: "uncollected_unset cl"
    using wait_loop_frame Some res assms(1) reads_only_unset by blast
  show ?thesis
  proof (cases rl)
    case (Inl e)
    then show ?thesis
      using assms(2) Some res u by (simp add: private_wait_def)
  next
    case (Inr acc)
    obtain so se where acc: "acc = (so, se)"
      by (cases acc)
    obtain rc cc wc where cl: "clean del_tmpfile cl wl = (rc, cc, wc)"
      by (cases "clean del_tmpfile cl wl")
    have "uncollected_unset cc"
      using clean_unset [OF u cl] .
    then show ?thesis
      using assms(2) Some res Inr acc cl
      by (cases rc) (auto simp: private_wait_def)
  qed
qed

lemma reachable_unset: "reachable c \<Longrightarrow> uncollected_unset c"
proof (induction rule: reachable.induct)
  case (constructed exe arguments dir collect_stdout collect_stderr merge_std_output
      stdout_size stderr_size stdin_file label w c w')
  then show ?case by (rule constructor_unset)
next
  case (started c w r c' w')
  then show ?case using start_unset by blast
next
  case (cleaned c delete_output_file w r c' w')
  then show ?case using clean_unset by blast
next
  case (picked_stdout c dec chardet w n m strict res c' w')
  then show ?case using pick_stdout_frame(1) reads_only_unset by blast
next
  case (picked_stderr c dec chardet w n m strict res c' w')
  then show ?case using pick_stderr_frame(1) reads_only_unset by blast
next
  case (waited c fuel dec chardet env timeout del_tmpfile w r c' w')
  then show ?case using private_wait_unset by blast
next
  case (ran c fuel dec chardet env timeout del_tmpfile w r c' w')
  obtain rs cs ws where s: "start c w = (rs, cs, ws)"
    by (cases "start c w")
  have u: "uncollected_unset cs"
    using start_unset [OF ran.IH s] .
  show ?case
  proof (cases rs)
    case (Inl e)
    then show ?thesis
      using ran.hyps(2) s u by (simp add: run_def)
  next
    case (Inr x)
    then show ?thesis
      using ran.hyps(2) s u private_wait_unset [of cs fuel dec chardet env timeout
          del_tmpfile ws r c' w']
      by (simp add: run_def)
  qed
next
  case (callback_set c)
  then show ?case by (simp add: uncollected_unset_def set_log_callback_def)
next
  case (label_set c label)
  then show ?case by (simp add: uncollected_unset_def set_proc_label_def)
next
  case (args_appended c more_args)
  then show ?case by (simp add: uncollected_unset_def append_args_def)
qed

text \<open>
  C8: in every state a controller can be in, \<open>pick_stdout\<close> returns \<open>([], 0)\<close> and changes
  nothing when stdout is not collected, and \<open>pick_stderr\<close> does when stderr is not
  collected or the merge option is on.
\<close>

theorem pick_of_uncollected_stream:
  assumes "reachable c"
  shows "(stdout_collect_option c = False \<longrightarrow>
            pick_stdout dec chardet c w n m strict = (Inr ([], 0), c, w))
       \<and> (stderr_collect_option c = False \<or> merget_option c \<longrightarrow>
            pick_stderr dec chardet c w n m strict = (Inr ([], 0), c, w))"
  using reachable_unset [OF assms]
  by (auto simp: uncollected_unset_def pick_stdout_def pick_stderr_def)

lemma constructed_controller_reachable:
  assumes "constructed_controller collect_stdout collect_stderr merge_std_output = Some (c, w)"
  shows "reachable c"
proof -
  obtain c0 where p: "PopenProcMgr ''/bin/sh'' [''-c'', ''job''] ''.'' collect_stdout
                        collect_stderr merge_std_output 1000 1000 None ''tmp'' world0
                      = (Inr c0, w)"
    and c: "c = set_log_callback c0"
    using assms
    by (auto simp: constructed_controller_def split: prod.splits sum.splits)
  show ?thesis
    unfolding c using p by (intro reachable.callback_set) (rule reachable.constructed)
qed

lemma started_controller_reachable:
  assumes "started_controller collect_stdout collect_stderr merge_std_output = Some (c, w)"
  shows "reachable c"
proof -
  obtain c0 w0 u where a: "constructed_controller collect_stdout collect_stderr
                             merge_std_output = Some (c0, w0)"
    and b: "start c0 w0 = (Inr u, c, w)"
    using assms
    by (auto simp: started_controller_def split: option.splits prod.splits sum.splits)
  show ?thesis
    using constructed_controller_reachable [OF a] b by (rule reachable.started)
qed

theorem pick_of_uncollected_stream_witness:
  "(case constructed_controller False True False of
      None \<Rightarrow> False
    | Some (c, w) \<Rightarrow>
        stdout_collect_option c = False
        \<and> fst (pick_stdout seven_bit_codecs chardet_none c w (- 1) (- 1) False) = Inr ([], 0))
   \<and> (case started_controller True True True of
         None \<Rightarrow> False
       | Some (c, w) \<Rightarrow>
           merget_option c
           \<and> stderr_manager c = Some 1
           \<and> fst (pick_stderr seven_bit_codecs chardet_none c
                     (child_writes [(1, ''e'' @ [LF])] w) (- 1) (- 1) False) = Inr ([], 0)
           \<and> fst (pick_stdout seven_bit_codecs chardet_none c
                     (child_writes [(1, ''e'' @ [LF])] w) (- 1) (- 1) False)
               = Inr ([map of_char ''e''], 2))"
proof -
  obtain c w where a: "constructed_controller False True False = Some (c, w)"
    and opt: "stdout_collect_option c = False"
  proof -
    have "(case constructed_controller False True False of
             None \<Rightarrow> False
           | Some (c, w) \<Rightarrow> stdout_collect_option c = False)"
      by code_simp
    then show ?thesis
      using that by (auto split: option.splits)
  qed
  have first: "fst (pick_stdout seven_bit_codecs chardet_none c w (- 1) (- 1) False)
                 = Inr ([], 0)"
    using pick_of_uncollected_stream
      [OF constructed_controller_reachable [OF a], THEN conjunct1, THEN mp, OF opt,
       of seven_bit_codecs chardet_none w "- 1" "- 1" False]
    by simp
  obtain c' w' where b: "started_controller True True True = Some (c', w')"
    and merge: "merget_option c'"
    and rest: "stderr_manager c' = Some 1
               \<and> fst (pick_stdout seven_bit_codecs chardet_none c'
                         (child_writes [(1, ''e'' @ [LF])] w') (- 1) (- 1) False)
                   = Inr ([map of_char ''e''], 2)"
  proof -
    have "(case started_controller True True True of
             None \<Rightarrow> False
           | Some (c, w) \<Rightarrow>
               merget_option c
               \<and> stderr_manager c = Some 1
               \<and> fst (pick_stdout seven_bit_codecs chardet_none c
                         (child_writes [(1, ''e'' @ [LF])] w) (- 1) (- 1) False)
                   = Inr ([map of_char ''e''], 2))"
      by code_simp
    then show ?thesis
      using that by (auto split: option.splits)
  qed
  have m: "stderr_collect_option c' = False \<or> merget_option c'"
    using merge by simp
  have second: "fst (pick_stderr seven_bit_codecs chardet_none c'
                       (child_writes [(1, ''e'' @ [LF])] w') (- 1) (- 1) False)
                  = Inr ([], 0)"
    using pick_of_uncollected_stream
      [OF started_controller_reachable [OF b], THEN conjunct2, THEN mp, OF m,
       of seven_bit_codecs chardet_none "child_writes [(1, ''e'' @ [LF])] w'" "- 1" "- 1"
         False]
    by simp
  show ?thesis
    using a opt first b merge rest second by simp
qed


subsection \<open>The deadline\<close>








subsection \<open>The exit of the wait loop and the order of its reads\<close>

text \<open>
  C4 fails in two runs of a process with both streams collected apart (stdout at path
  2, stderr at path 3), the callback set, no timeout. In the first the child has
  written the lines \<open>e1\<close>, the empty line and \<open>e2\<close> to its stderr and the line \<open>o1\<close> to its
  stdout and has exited, all before the loop first looks. The first iteration reads
  stderr up to the empty line only (the line feed, cut to nothing by the default slice,
  is taken for the end of the data), then stdout; \<open>e2\<close>, which was there all along, is
  read and reported in the second iteration, after \<open>o1\<close>. In the second run the child
  writes the line \<open>late\<close> to its stdout and exits after the loop condition has looked at
  the two files and before it polls the process: the loop ends with the line unread,
  and \<open>wait\<close> returns without it.
\<close>

theorem wait_loop_order_and_exit_fail:
  "(case started_controller True True False of
      None \<Rightarrow> False
    | Some (c, w) \<Rightarrow>
        (case wait 5 seven_bit_codecs chardet_none
                (child_prints_and_exits 0
                   [(3, ''e1'' @ [LF] @ [LF] @ ''e2'' @ [LF]), (2, ''o1'' @ [LF])] 0)
                None c w of
           None \<Rightarrow> False
         | Some (r, c', w') \<Rightarrow>
             r = Inr \<lparr>returncode = Some 0, stdout = [map of_char ''o1''],
                      stderr = [map of_char ''e1'', map of_char ''e2'']\<rparr>
             \<and> drop 1 (call_back_calls c')
                 = [line_message ''tmp'' ''stderr'' (map of_char ''e1''),
                    line_message ''tmp'' ''stdout'' (map of_char ''o1''),
                    line_message ''tmp'' ''stderr'' (map of_char ''e2'')])
        \<and> (case wait_loop 5 seven_bit_codecs chardet_none
                   (child_prints_and_exits 2 [(2, ''late'' @ [LF])] 0) None None 0 c w
                   [] [] of
              None \<Rightarrow> False
            | Some (r, c', w') \<Rightarrow>
                r = Inr ([], [])
                \<and> has_unread (stdout_manager c') c' w'
                \<and> content (files w' 2) = ''late'' @ [LF]
                \<and> rpos (files w' 2) = 0
                \<and> poll w' = Some 0)
        \<and> (case wait 5 seven_bit_codecs chardet_none
                   (child_prints_and_exits 2 [(2, ''late'' @ [LF])] 0) None c w of
              None \<Rightarrow> False
            | Some (r, c', w') \<Rightarrow>
                r = Inr \<lparr>returncode = Some 0, stdout = [], stderr = []\<rparr>))"
  by code_simp

subsection \<open>The round trip of a blank line\<close>

lemma readline_line: "LF \<notin> set l \<Longrightarrow> readline (l @ LF # rest) = (l @ [LF], rest)"
  by (induction l) auto

text \<open>
  What the reader does return: of lines that are not empty, hold 7-bit bytes and end
  with a line feed each, a call with the defaults returns every one, in order, without
  its line feed, and counts every byte.
\<close>

lemma readlines_loop_nonblank_lines:
  assumes "list_all (\<lambda>l. l \<noteq> [] \<and> LF \<notin> set l \<and> list_all (\<lambda>b. (of_char b :: int) < 128) l) ls"
    and "encoding v = ''utf-8''" and "errors_strategy v = Strict"
  shows "readlines_loop seven_bit_codecs chardet (- 1) (- 1) strict
           (concat (map (\<lambda>l. l @ [LF]) ls)) v
         = (Inr (lines v @ map (map of_char) ls,
                 read_size v + length (concat (map (\<lambda>l. l @ [LF]) ls))),
            v\<lparr>read_size := read_size v + length (concat (map (\<lambda>l. l @ [LF]) ls)),
              lines := lines v @ map (map of_char) ls\<rparr>)"
  using assms
proof (induction ls arbitrary: v)
  case Nil
  then show ?case
    by (simp add: readlines_loop_at_end)
next
  case (Cons l ls)
  let ?rest = "concat (map (\<lambda>l. l @ [LF]) ls)"
  let ?v1 = "v\<lparr>read_size := read_size v + length (l @ [LF])\<rparr>"
  have l: "l \<noteq> []" "LF \<notin> set l" "list_all (\<lambda>b. (of_char b :: int) < 128) l"
    using Cons.prems(1) by simp_all
  have r: "readline (concat (map (\<lambda>l. l @ [LF]) (l # ls))) = (l @ [LF], ?rest)"
    using readline_line [OF l(2), of ?rest] by simp
  have s: "slice_to (- 1) (l @ [LF]) = l"
    by (simp add: slice_to_minus_one)
  have ne: "slice_to (- 1) (l @ [LF]) \<noteq> []"
    using l(1) s by simp
  have c: "(- 1 :: int) = - 1 \<or> int (length (lines v)) < - 1"
    by simp
  have d: "decode_retry seven_bit_codecs chardet strict l 3 ?v1
             = (Inr (Some (map of_char l)), ?v1)"
    using l(3) Cons.prems(2,3) by (simp add: eval_nat_numeral seven_bit_codecs_def)
  let ?v2 = "?v1\<lparr>lines := lines ?v1 @ [map of_char l]\<rparr>"
  have step: "readlines_loop seven_bit_codecs chardet (- 1) (- 1) strict
                (concat (map (\<lambda>l. l @ [LF]) (l # ls))) v
              = readlines_loop seven_bit_codecs chardet (- 1) (- 1) strict ?rest ?v2"
    using d by (subst readlines_loop_step [OF c r ne]) (simp add: s)
  have ih: "readlines_loop seven_bit_codecs chardet (- 1) (- 1) strict ?rest ?v2
            = (Inr (lines ?v2 @ map (map of_char) ls, read_size ?v2 + length ?rest),
               ?v2\<lparr>read_size := read_size ?v2 + length ?rest,
                    lines := lines ?v2 @ map (map of_char) ls\<rparr>)"
    using Cons.IH [of ?v2] Cons.prems by simp
  show ?case
    by (subst step, subst ih) simp
qed

text \<open>
  C1 at a child that writes the three lines \<open>a\<close>, the empty line and \<open>b\<close> to its stdout
  (path 2) and exits with 0, all before the loop first looks: \<open>run\<close> returns two lines.
  The empty line, read as a single line feed, is cut to nothing by the default slice and
  taken for the end of the data; the next iteration of the wait loop reads on after it.
\<close>

theorem blank_line_lost_in_round_trip:
  "(case constructed_controller True True False of
      None \<Rightarrow> None
    | Some (c, w) \<Rightarrow>
        map_option fst
          (run 5 seven_bit_codecs chardet_none
             (child_prints_and_exits 0 [(2, ''a'' @ [LF] @ [LF] @ ''b'' @ [LF])] 0)
             None True c w))
     = Some (Inr \<lparr>returncode = Some 0, stdout = [map of_char ''a'', map of_char ''b''],
                  stderr = []\<rparr>)"
  by code_simp


end
